theory Spec2Isabelle
  imports Main "HOL-Library.Multiset" "HOL-Library.Sublist"
begin

section \<open>The RTShader Function of OgreShaderFunction.cpp\<close>

text \<open>
  A shallow embedding of \<^verbatim>\<open>Components/RTShaderSystem/src/OgreShaderFunction.cpp\<close>.
  A \<^verbatim>\<open>Function\<close> owns three parameter lists and a map from group execution order to
  lists of atoms. Every member function becomes a HOL function that takes the Function
  (and the allocator) and returns the outcome together with the Function it leaves behind,
  so that the state after a thrown exception is part of the model.
\<close>

subsection \<open>Enumerations and the Parameter class\<close>

text \<open>
  \<^verbatim>\<open>Parameter::Semantic\<close>: the nine enumerators that the two \<^verbatim>\<open>switch\<close> statements of
  the file list.
\<close>

datatype Semantic =
    SPS_UNKNOWN
  | SPS_POSITION
  | SPS_BLEND_WEIGHTS
  | SPS_BLEND_INDICES
  | SPS_NORMAL
  | SPS_COLOR
  | SPS_TEXTURE_COORDINATES
  | SPS_BINORMAL
  | SPS_TANGENT

text \<open>
  \<^verbatim>\<open>Parameter::Content\<close>: the enumerators the file names, and \<open>SPC_OTHER n\<close> for every
  enumerator of the header that the file does not name (\<open>n\<close> tells them apart).
\<close>

datatype Content =
    SPC_UNKNOWN
  | SPC_COLOR_DIFFUSE
  | SPC_COLOR_SPECULAR
  | SPC_POSITION_PROJECTIVE_SPACE
  | SPC_POSITION_WORLD_SPACE
  | SPC_POSITION_OBJECT_SPACE
  | SPC_NORMAL_TANGENT_SPACE
  | SPC_NORMAL_OBJECT_SPACE
  | SPC_NORMAL_WORLD_SPACE
  | SPC_POINTSPRITE_SIZE
  | SPC_OTHER nat

text \<open>
  \<^verbatim>\<open>GpuConstantType\<close>: an enumeration compared by equality only. The float types and
  \<^verbatim>\<open>GCT_UNKNOWN\<close> are named; \<open>GCT_OTHER n\<close> stands for the remaining enumerators.
\<close>

datatype GpuConstantType =
    GCT_FLOAT1
  | GCT_FLOAT2
  | GCT_FLOAT3
  | GCT_FLOAT4
  | GCT_UNKNOWN
  | GCT_OTHER nat

text \<open>
  A \<^verbatim>\<open>Parameter\<close> object, read by this file through its getters only; the fields are in
  the order of the constructor call \<^verbatim>\<open>Parameter(type, name, semantic, index, content)\<close>.
  The index is a C++ \<^verbatim>\<open>int\<close>; the file increments it once per list element at most, so it
  is modelled as an unbounded integer.
\<close>

record Parameter =
  getType :: GpuConstantType
  getName :: string
  getSemantic :: Semantic
  getIndex :: int
  getContent :: Content

text \<open>
  A non-null \<^verbatim>\<open>ParameterPtr\<close> is the address of the object together with the object (the
  file never changes a Parameter after its construction); \<^verbatim>\<open>ParameterPtr()\<close> is \<open>None\<close>.
  Two pointers are the same instance when their addresses are equal.
\<close>

type_synonym ParameterRef = "nat \<times> Parameter"

type_synonym ParameterPtr = "ParameterRef option"

type_synonym ShaderParameterList = "ParameterRef list"

text \<open>
  The allocator: the number of objects constructed so far. \<^verbatim>\<open>OGRE_NEW\<close> returns this
  address and increments it, so an address is never given out twice.
\<close>

type_synonym Heap = nat

subsection \<open>Exceptions and assertions\<close>

text \<open>
  Every \<^verbatim>\<open>OGRE_EXCEPT\<close> of the file throws \<^verbatim>\<open>Exception::ERR_INVALIDPARAMS\<close>. The description
  is kept as the throw site together with the values the message interpolates.
  A failing \<^verbatim>\<open>assert\<close> aborts the program.
\<close>

datatype Description =
    CannotDeriveType
  | ResolveTypeMismatch Semantic int string
  | ResolveNotImplemented Semantic int string
  | LocalTypeMismatch string
  | EqualSemantic string string
  | AlreadyDeclared string string

datatype Failure =
    ERR_INVALIDPARAMS Description
  | AssertionFailed

subsection \<open>typeFromContent\<close>

fun typeFromContent :: "Content \<Rightarrow> Failure + GpuConstantType" where
  "typeFromContent SPC_COLOR_DIFFUSE = Inr GCT_FLOAT4"
| "typeFromContent SPC_COLOR_SPECULAR = Inr GCT_FLOAT4"
| "typeFromContent SPC_POSITION_PROJECTIVE_SPACE = Inr GCT_FLOAT4"
| "typeFromContent SPC_POSITION_WORLD_SPACE = Inr GCT_FLOAT4"
| "typeFromContent SPC_POSITION_OBJECT_SPACE = Inr GCT_FLOAT4"
| "typeFromContent SPC_NORMAL_TANGENT_SPACE = Inr GCT_FLOAT3"
| "typeFromContent SPC_NORMAL_OBJECT_SPACE = Inr GCT_FLOAT3"
| "typeFromContent SPC_NORMAL_WORLD_SPACE = Inr GCT_FLOAT3"
| "typeFromContent SPC_POINTSPRITE_SIZE = Inr GCT_FLOAT1"
| "typeFromContent _ = Inl (ERR_INVALIDPARAMS CannotDeriveType)"

subsection \<open>Atoms\<close>

text \<open>
  A \<^verbatim>\<open>FunctionAtom*\<close>: the address of the atom and the value its
  \<^verbatim>\<open>getGroupExecutionOrder()\<close> returns, an \<^verbatim>\<open>int\<close> (\<^verbatim>\<open>addAtomAssign\<close> takes the group order
  as \<^verbatim>\<open>int groupOrder\<close>).
\<close>

type_synonym FunctionAtomPtr = "nat \<times> int"

type_synonym FunctionAtomInstanceList = "FunctionAtomPtr list"

definition getGroupExecutionOrder :: "FunctionAtomPtr \<Rightarrow> int" where
  "getGroupExecutionOrder atomInstance = snd atomInstance"

text \<open>
  The conversion of an \<^verbatim>\<open>int\<close> to \<^verbatim>\<open>size_t\<close> (64 bits), as it happens where the group
  order is used as a key of \<^verbatim>\<open>std::map<size_t, FunctionAtomInstanceList>\<close>.
\<close>

definition size_t_of_int :: "int \<Rightarrow> nat" where
  "size_t_of_int i = nat (i mod 2 ^ 64)"

definition atomKey :: "FunctionAtomPtr \<Rightarrow> nat" where
  "atomKey atomInstance = size_t_of_int (getGroupExecutionOrder atomInstance)"

text \<open>
  \<^verbatim>\<open>std::map<size_t, V>\<close> as an association list kept in ascending key order.
  \<open>mapIndex\<close> is the value \<^verbatim>\<open>operator[]\<close> refers to, \<open>mapTouch\<close> the entry it inserts for
  an absent key, \<open>mapStore\<close> an assignment through that reference.
\<close>

fun mapStore :: "nat \<Rightarrow> 'v \<Rightarrow> (nat \<times> 'v) list \<Rightarrow> (nat \<times> 'v) list" where
  "mapStore g v [] = [(g, v)]"
| "mapStore g v ((k, w) # m) =
     (if g < k then (g, v) # (k, w) # m
      else if g = k then (g, v) # m
      else (k, w) # mapStore g v m)"

definition mapIndex :: "(nat \<times> 'v list) list \<Rightarrow> nat \<Rightarrow> 'v list" where
  "mapIndex m g = (case map_of m g of None \<Rightarrow> [] | Some b \<Rightarrow> b)"

definition mapTouch :: "nat \<Rightarrow> (nat \<times> 'v list) list \<Rightarrow> (nat \<times> 'v list) list" where
  "mapTouch g m = mapStore g (mapIndex m g) m"

subsection \<open>The Function class\<close>

record Function =
  mName :: string
  mDescription :: string
  mFunctionType :: nat
  mInputParameters :: ShaderParameterList
  mOutputParameters :: ShaderParameterList
  mLocalParameters :: ShaderParameterList
  mAtomInstances :: "(nat \<times> FunctionAtomInstanceList) list"
  mSortedAtomInstances :: FunctionAtomInstanceList

text \<open>The constructor: the three parameter lists and the atom containers start empty.\<close>

definition newFunction :: "string \<Rightarrow> string \<Rightarrow> nat \<Rightarrow> Function" where
  "newFunction name desc functionType =
     \<lparr> mName = name, mDescription = desc, mFunctionType = functionType,
       mInputParameters = [], mOutputParameters = [], mLocalParameters = [],
       mAtomInstances = [], mSortedAtomInstances = [] \<rparr>"

subsection \<open>Lookups\<close>

definition getParameterByName :: "ShaderParameterList \<Rightarrow> string \<Rightarrow> ParameterPtr" where
  "getParameterByName parameterList name =
     find (\<lambda>p. getName (snd p) = name) parameterList"

definition getParameterBySemantic ::
  "ShaderParameterList \<Rightarrow> Semantic \<Rightarrow> int \<Rightarrow> ParameterPtr" where
  "getParameterBySemantic parameterList semantic index =
     find (\<lambda>p. getSemantic (snd p) = semantic \<and> getIndex (snd p) = index) parameterList"

definition getParameterByContent ::
  "ShaderParameterList \<Rightarrow> Content \<Rightarrow> GpuConstantType \<Rightarrow> Failure + ParameterPtr" where
  "getParameterByContent parameterList content type =
     (case (if type = GCT_UNKNOWN then typeFromContent content else Inr type) of
        Inl e \<Rightarrow> Inl e
      | Inr type' \<Rightarrow>
          Inr (if content \<noteq> SPC_UNKNOWN
               then find (\<lambda>p. getContent (snd p) = content \<and> getType (snd p) = type')
                      parameterList
               else None))"

subsection \<open>Adding and deleting parameters\<close>

text \<open>
  \<^verbatim>\<open>addParameter\<close> takes the target list by reference; the model returns the list it
  leaves there. The three functions that add a parameter read its name, semantic and
  index at once, so their argument is a pointer to an object, never null.
\<close>

definition addParameter ::
  "Function \<Rightarrow> ShaderParameterList \<Rightarrow> ParameterRef \<Rightarrow> Failure + ShaderParameterList" where
  "addParameter f parameterList parameter =
     (if getParameterByName (mInputParameters f) (getName (snd parameter)) \<noteq> None
      then Inl (ERR_INVALIDPARAMS (AlreadyDeclared (getName (snd parameter)) (mName f)))
      else if getParameterByName (mOutputParameters f) (getName (snd parameter)) \<noteq> None
      then Inl (ERR_INVALIDPARAMS (AlreadyDeclared (getName (snd parameter)) (mName f)))
      else Inr (parameterList @ [parameter]))"

definition addInputParameter :: "Function \<Rightarrow> ParameterRef \<Rightarrow> (Failure + unit) \<times> Function" where
  "addInputParameter f parameter =
     (if getParameterBySemantic (mInputParameters f)
           (getSemantic (snd parameter)) (getIndex (snd parameter)) \<noteq> None
      then (Inl (ERR_INVALIDPARAMS (EqualSemantic (getName (snd parameter)) (mName f))), f)
      else (case addParameter f (mInputParameters f) parameter of
              Inl e \<Rightarrow> (Inl e, f)
            | Inr l \<Rightarrow> (Inr (), f\<lparr>mInputParameters := l\<rparr>)))"

definition addOutputParameter :: "Function \<Rightarrow> ParameterRef \<Rightarrow> (Failure + unit) \<times> Function" where
  "addOutputParameter f parameter =
     (if getParameterBySemantic (mOutputParameters f)
           (getSemantic (snd parameter)) (getIndex (snd parameter)) \<noteq> None
      then (Inl (ERR_INVALIDPARAMS (EqualSemantic (getName (snd parameter)) (mName f))), f)
      else (case addParameter f (mOutputParameters f) parameter of
              Inl e \<Rightarrow> (Inl e, f)
            | Inr l \<Rightarrow> (Inr (), f\<lparr>mOutputParameters := l\<rparr>)))"

text \<open>
  \<^verbatim>\<open>deleteParameter\<close> erases the first element that is the same instance as the argument
  (pointer comparison); a null argument equals no element.
\<close>

fun deleteParameter :: "ShaderParameterList \<Rightarrow> ParameterPtr \<Rightarrow> ShaderParameterList" where
  "deleteParameter [] parameter = []"
| "deleteParameter (p # parameterList) parameter =
     (if map_option fst parameter = Some (fst p) then parameterList
      else p # deleteParameter parameterList parameter)"

definition deleteInputParameter :: "Function \<Rightarrow> ParameterPtr \<Rightarrow> Function" where
  "deleteInputParameter f parameter =
     f\<lparr>mInputParameters := deleteParameter (mInputParameters f) parameter\<rparr>"

definition deleteOutputParameter :: "Function \<Rightarrow> ParameterPtr \<Rightarrow> Function" where
  "deleteOutputParameter f parameter =
     f\<lparr>mOutputParameters := deleteParameter (mOutputParameters f) parameter\<rparr>"

definition deleteAllInputParameters :: "Function \<Rightarrow> Function" where
  "deleteAllInputParameters f = f\<lparr>mInputParameters := []\<rparr>"

definition deleteAllOutputParameters :: "Function \<Rightarrow> Function" where
  "deleteAllOutputParameters f = f\<lparr>mOutputParameters := []\<rparr>"

subsection \<open>The parameter factory\<close>

text \<open>
  \<^verbatim>\<open>ParameterFactory\<close> is implemented outside this file, so the functions of this file
  take it as an argument: one function per factory call of the file. Each returns the
  object it constructs, or \<open>None\<close> for a null \<^verbatim>\<open>ParameterPtr\<close> (the callers test the
  result for null).
\<close>

record ParameterFactory =
  createInPosition :: "int \<Rightarrow> Parameter option"
  createInWeights :: "int \<Rightarrow> Parameter option"
  createInIndices :: "int \<Rightarrow> Parameter option"
  createInNormal :: "int \<Rightarrow> Parameter option"
  createInColor :: "int \<Rightarrow> Parameter option"
  createInTexcoord :: "GpuConstantType \<Rightarrow> int \<Rightarrow> Content \<Rightarrow> Parameter option"
  createInBiNormal :: "int \<Rightarrow> Parameter option"
  createInTangent :: "int \<Rightarrow> Parameter option"
  createOutPosition :: "int \<Rightarrow> Parameter option"
  createOutNormal :: "int \<Rightarrow> Parameter option"
  createOutColor :: "int \<Rightarrow> Parameter option"
  createOutTexcoord :: "GpuConstantType \<Rightarrow> int \<Rightarrow> Content \<Rightarrow> Parameter option"
  createOutBiNormal :: "int \<Rightarrow> Parameter option"
  createOutTangent :: "int \<Rightarrow> Parameter option"

text \<open>A constructed object gets the next free address; a null result allocates nothing.\<close>

fun allocate :: "Parameter option \<Rightarrow> Heap \<Rightarrow> ParameterPtr \<times> Heap" where
  "allocate None h = (None, h)"
| "allocate (Some obj) h = (Some (h, obj), Suc h)"

subsection \<open>resolveInputParameter and resolveOutputParameter\<close>

text \<open>
  The loop that finds the next index of a semantic: it starts at 0 and increments once
  for every element of the list with that semantic.
\<close>

definition nextIndex :: "ShaderParameterList \<Rightarrow> Semantic \<Rightarrow> int" where
  "nextIndex parameterList semantic =
     foldl (\<lambda>index p. if getSemantic (snd p) = semantic then index + 1 else index)
       0 parameterList"

text \<open>
  The \<^verbatim>\<open>switch (semantic)\<close> of \<^verbatim>\<open>resolveInputParameter\<close>. The argument \<open>param\<close> is the
  value the variable \<^verbatim>\<open>param\<close> holds when the switch is reached; the case
  \<^verbatim>\<open>SPS_UNKNOWN\<close> leaves it as it is.
\<close>

fun inputSwitch ::
  "ParameterFactory \<Rightarrow> Semantic \<Rightarrow> GpuConstantType \<Rightarrow> int \<Rightarrow> Content \<Rightarrow> ParameterPtr \<Rightarrow> Heap
     \<Rightarrow> Failure + (ParameterPtr \<times> Heap)" where
  "inputSwitch fac SPS_POSITION type index content param h =
     (if type = GCT_FLOAT4 then Inr (allocate (createInPosition fac index) h)
      else Inl AssertionFailed)"
| "inputSwitch fac SPS_BLEND_WEIGHTS type index content param h =
     (if type = GCT_FLOAT4 then Inr (allocate (createInWeights fac index) h)
      else Inl AssertionFailed)"
| "inputSwitch fac SPS_BLEND_INDICES type index content param h =
     (if type = GCT_FLOAT4 then Inr (allocate (createInIndices fac index) h)
      else Inl AssertionFailed)"
| "inputSwitch fac SPS_NORMAL type index content param h =
     (if type = GCT_FLOAT3 then Inr (allocate (createInNormal fac index) h)
      else Inl AssertionFailed)"
| "inputSwitch fac SPS_COLOR type index content param h =
     (if type = GCT_FLOAT4 then Inr (allocate (createInColor fac index) h)
      else Inl AssertionFailed)"
| "inputSwitch fac SPS_TEXTURE_COORDINATES type index content param h =
     Inr (allocate (createInTexcoord fac type index content) h)"
| "inputSwitch fac SPS_BINORMAL type index content param h =
     (if type = GCT_FLOAT3 then Inr (allocate (createInBiNormal fac index) h)
      else Inl AssertionFailed)"
| "inputSwitch fac SPS_TANGENT type index content param h =
     (if type = GCT_FLOAT3 then Inr (allocate (createInTangent fac index) h)
      else Inl AssertionFailed)"
| "inputSwitch fac SPS_UNKNOWN type index content param h = Inr (param, h)"

text \<open>
  The part of \<^verbatim>\<open>resolveInputParameter\<close> from the comment \<^verbatim>\<open>No parameter found -> create
  new one\<close> to the end: the switch, the registration of a non-null \<^verbatim>\<open>param\<close>, the return.
\<close>

definition createInput ::
  "ParameterFactory \<Rightarrow> Semantic \<Rightarrow> int \<Rightarrow> Content \<Rightarrow> GpuConstantType \<Rightarrow> ParameterPtr
     \<Rightarrow> Function \<times> Heap \<Rightarrow> (Failure + ParameterPtr) \<times> (Function \<times> Heap)" where
  "createInput fac semantic index content type param st =
     (case inputSwitch fac semantic type index content param (snd st) of
        Inl e \<Rightarrow> (Inl e, st)
      | Inr (None, h) \<Rightarrow> (Inr None, (fst st, h))
      | Inr (Some p, h) \<Rightarrow>
          (case addInputParameter (fst st) p of
             (Inl e, f) \<Rightarrow> (Inl e, (f, h))
           | (Inr u, f) \<Rightarrow> (Inr (Some p), (f, h))))"

definition resolveInputParameter ::
  "ParameterFactory \<Rightarrow> Semantic \<Rightarrow> int \<Rightarrow> Content \<Rightarrow> GpuConstantType
     \<Rightarrow> Function \<times> Heap \<Rightarrow> (Failure + ParameterPtr) \<times> (Function \<times> Heap)" where
  "resolveInputParameter fac semantic index content type st =
     (case getParameterByContent (mInputParameters (fst st)) content type of
        Inl e \<Rightarrow> (Inl e, st)
      | Inr (Some p) \<Rightarrow> (Inr (Some p), st)
      | Inr None \<Rightarrow>
          (if index = - 1
           then createInput fac semantic (nextIndex (mInputParameters (fst st)) semantic)
                  content type None st
           else
             (case getParameterBySemantic (mInputParameters (fst st)) semantic index of
                None \<Rightarrow> createInput fac semantic index content type None st
              | Some p \<Rightarrow>
                  (if getContent (snd p) = content
                   then (if getType (snd p) = type then (Inr (Some p), st)
                         else (Inl (ERR_INVALIDPARAMS
                                 (ResolveTypeMismatch semantic index (mName (fst st)))), st))
                   else createInput fac semantic index content type (Some p) st))))"

text \<open>
  The \<^verbatim>\<open>switch (semantic)\<close> of \<^verbatim>\<open>resolveOutputParameter\<close>: blend weights and blend indices
  throw.
\<close>

fun outputSwitch ::
  "ParameterFactory \<Rightarrow> string \<Rightarrow> Semantic \<Rightarrow> GpuConstantType \<Rightarrow> int \<Rightarrow> Content \<Rightarrow> ParameterPtr
     \<Rightarrow> Heap \<Rightarrow> Failure + (ParameterPtr \<times> Heap)" where
  "outputSwitch fac name SPS_POSITION type index content param h =
     (if type = GCT_FLOAT4 then Inr (allocate (createOutPosition fac index) h)
      else Inl AssertionFailed)"
| "outputSwitch fac name SPS_BLEND_WEIGHTS type index content param h =
     Inl (ERR_INVALIDPARAMS (ResolveNotImplemented SPS_BLEND_WEIGHTS index name))"
| "outputSwitch fac name SPS_BLEND_INDICES type index content param h =
     Inl (ERR_INVALIDPARAMS (ResolveNotImplemented SPS_BLEND_INDICES index name))"
| "outputSwitch fac name SPS_NORMAL type index content param h =
     (if type = GCT_FLOAT3 then Inr (allocate (createOutNormal fac index) h)
      else Inl AssertionFailed)"
| "outputSwitch fac name SPS_COLOR type index content param h =
     (if type = GCT_FLOAT4 then Inr (allocate (createOutColor fac index) h)
      else Inl AssertionFailed)"
| "outputSwitch fac name SPS_TEXTURE_COORDINATES type index content param h =
     Inr (allocate (createOutTexcoord fac type index content) h)"
| "outputSwitch fac name SPS_BINORMAL type index content param h =
     (if type = GCT_FLOAT3 then Inr (allocate (createOutBiNormal fac index) h)
      else Inl AssertionFailed)"
| "outputSwitch fac name SPS_TANGENT type index content param h =
     (if type = GCT_FLOAT3 then Inr (allocate (createOutTangent fac index) h)
      else Inl AssertionFailed)"
| "outputSwitch fac name SPS_UNKNOWN type index content param h = Inr (param, h)"

definition createOutput ::
  "ParameterFactory \<Rightarrow> Semantic \<Rightarrow> int \<Rightarrow> Content \<Rightarrow> GpuConstantType \<Rightarrow> ParameterPtr
     \<Rightarrow> Function \<times> Heap \<Rightarrow> (Failure + ParameterPtr) \<times> (Function \<times> Heap)" where
  "createOutput fac semantic index content type param st =
     (case outputSwitch fac (mName (fst st)) semantic type index content param (snd st) of
        Inl e \<Rightarrow> (Inl e, st)
      | Inr (None, h) \<Rightarrow> (Inr None, (fst st, h))
      | Inr (Some p, h) \<Rightarrow>
          (case addOutputParameter (fst st) p of
             (Inl e, f) \<Rightarrow> (Inl e, (f, h))
           | (Inr u, f) \<Rightarrow> (Inr (Some p), (f, h))))"

definition resolveOutputParameter ::
  "ParameterFactory \<Rightarrow> Semantic \<Rightarrow> int \<Rightarrow> Content \<Rightarrow> GpuConstantType
     \<Rightarrow> Function \<times> Heap \<Rightarrow> (Failure + ParameterPtr) \<times> (Function \<times> Heap)" where
  "resolveOutputParameter fac semantic index content type st =
     (case getParameterByContent (mOutputParameters (fst st)) content type of
        Inl e \<Rightarrow> (Inl e, st)
      | Inr (Some p) \<Rightarrow> (Inr (Some p), st)
      | Inr None \<Rightarrow>
          (if index = - 1
           then createOutput fac semantic (nextIndex (mOutputParameters (fst st)) semantic)
                  content type None st
           else
             (case getParameterBySemantic (mOutputParameters (fst st)) semantic index of
                None \<Rightarrow> createOutput fac semantic index content type None st
              | Some p \<Rightarrow>
                  (if getContent (snd p) = content
                   then (if getType (snd p) = type then (Inr (Some p), st)
                         else (Inl (ERR_INVALIDPARAMS
                                 (ResolveTypeMismatch semantic index (mName (fst st)))), st))
                   else createOutput fac semantic index content type (Some p) st))))"

subsection \<open>resolveLocalParameter\<close>

text \<open>\<^verbatim>\<open>StringConverter::toString\<close> of a \<^verbatim>\<open>size_t\<close>: the decimal digits.\<close>

fun toString :: "nat \<Rightarrow> string" where
  "toString n =
     (if n < 10 then [''0123456789'' ! n]
      else toString (n div 10) @ [''0123456789'' ! (n mod 10)])"

declare toString.simps [simp del]

text \<open>The overload that takes a name.\<close>

definition resolveLocalParameterByName ::
  "Semantic \<Rightarrow> int \<Rightarrow> string \<Rightarrow> GpuConstantType
     \<Rightarrow> Function \<times> Heap \<Rightarrow> (Failure + ParameterPtr) \<times> (Function \<times> Heap)" where
  "resolveLocalParameterByName semantic index name type st =
     (case getParameterByName (mLocalParameters (fst st)) name of
        Some p \<Rightarrow>
          (if getType (snd p) = type \<and> getSemantic (snd p) = semantic
              \<and> getIndex (snd p) = index
           then (Inr (Some p), st)
           else (Inl (ERR_INVALIDPARAMS (LocalTypeMismatch (mName (fst st)))), st))
      | None \<Rightarrow>
          (let param = (snd st,
                 \<lparr> getType = type, getName = name, getSemantic = semantic,
                   getIndex = index, getContent = SPC_UNKNOWN \<rparr>)
           in case addParameter (fst st) (mLocalParameters (fst st)) param of
                Inl e \<Rightarrow> (Inl e, (fst st, Suc (snd st)))
              | Inr l \<Rightarrow> (Inr (Some param), ((fst st)\<lparr>mLocalParameters := l\<rparr>, Suc (snd st)))))"

text \<open>The overload that takes a content.\<close>

definition resolveLocalParameter ::
  "Semantic \<Rightarrow> int \<Rightarrow> Content \<Rightarrow> GpuConstantType
     \<Rightarrow> Function \<times> Heap \<Rightarrow> (Failure + ParameterPtr) \<times> (Function \<times> Heap)" where
  "resolveLocalParameter semantic index content type st =
     (case (if type = GCT_UNKNOWN then typeFromContent content else Inr type) of
        Inl e \<Rightarrow> (Inl e, st)
      | Inr type' \<Rightarrow>
          (case getParameterByContent (mLocalParameters (fst st)) content type' of
             Inl e \<Rightarrow> (Inl e, st)
           | Inr (Some p) \<Rightarrow> (Inr (Some p), st)
           | Inr None \<Rightarrow>
               (let param = (snd st,
                      \<lparr> getType = type',
                        getName = ''lLocalParam_'' @ toString (length (mLocalParameters (fst st))),
                        getSemantic = semantic, getIndex = index, getContent = content \<rparr>)
                in case addParameter (fst st) (mLocalParameters (fst st)) param of
                     Inl e \<Rightarrow> (Inl e, (fst st, Suc (snd st)))
                   | Inr l \<Rightarrow>
                       (Inr (Some param),
                        ((fst st)\<lparr>mLocalParameters := l\<rparr>, Suc (snd st))))))"

subsection \<open>Atom instances\<close>

definition addAtomInstance :: "Function \<Rightarrow> FunctionAtomPtr \<Rightarrow> Function" where
  "addAtomInstance f atomInstance =
     f\<lparr> mAtomInstances :=
          mapStore (atomKey atomInstance)
            (mapIndex (mAtomInstances f) (atomKey atomInstance) @ [atomInstance])
            (mAtomInstances f),
        mSortedAtomInstances := [] \<rparr>"

text \<open>\<^verbatim>\<open>addAtomAssign\<close> constructs the assignment atom at the next free address.\<close>

definition addAtomAssign :: "int \<Rightarrow> Function \<times> Heap \<Rightarrow> Function \<times> Heap" where
  "addAtomAssign groupOrder st = (addAtomInstance (fst st) (snd st, groupOrder), Suc (snd st))"

text \<open>
  Erasing the first element of a bucket that is the atom (pointer comparison), with the
  flag that tells whether there was one.
\<close>

fun eraseAtom :: "FunctionAtomInstanceList \<Rightarrow> FunctionAtomPtr \<Rightarrow> (FunctionAtomInstanceList \<times> bool)" where
  "eraseAtom [] atomInstance = ([], False)"
| "eraseAtom (a # bucket) atomInstance =
     (if fst a = fst atomInstance then (bucket, True)
      else (a # fst (eraseAtom bucket atomInstance), snd (eraseAtom bucket atomInstance)))"

text \<open>
  \<^verbatim>\<open>deleteAtomInstance\<close>: \<^verbatim>\<open>mAtomInstances[g]\<close> in the loop header inserts an empty bucket
  when the group has none, also when the atom is then not found.
\<close>

definition deleteAtomInstance :: "Function \<Rightarrow> FunctionAtomPtr \<Rightarrow> bool \<times> Function" where
  "deleteAtomInstance f atomInstance =
     (let g = atomKey atomInstance;
          m = mapTouch g (mAtomInstances f);
          r = eraseAtom (mapIndex m g) atomInstance
      in if snd r
         then (True, f\<lparr> mAtomInstances := mapStore g (fst r) m, mSortedAtomInstances := [] \<rparr>)
         else (False, f\<lparr> mAtomInstances := m \<rparr>))"

definition getAtomInstances :: "Function \<Rightarrow> FunctionAtomInstanceList \<times> Function" where
  "getAtomInstances f =
     (if mSortedAtomInstances f \<noteq> [] then (mSortedAtomInstances f, f)
      else (let flat = foldl (\<lambda>acc b. acc @ snd b) (mSortedAtomInstances f) (mAtomInstances f)
            in (flat, f\<lparr> mSortedAtomInstances := flat \<rparr>)))"

subsection \<open>Sequences of calls\<close>

text \<open>
  The member functions of the class that change a Function, as a datatype of calls.
  \<open>call\<close> gives the Function and the allocator that a call leaves behind, whether it returns
  or throws (after a failed assertion the program has stopped, and no further call follows
  in a real run).
\<close>

datatype Call =
    ResolveInputParameter Semantic int Content GpuConstantType
  | ResolveOutputParameter Semantic int Content GpuConstantType
  | ResolveLocalParameterByName Semantic int string GpuConstantType
  | ResolveLocalParameter Semantic int Content GpuConstantType
  | AddInputParameter ParameterRef
  | AddOutputParameter ParameterRef
  | DeleteInputParameter ParameterPtr
  | DeleteOutputParameter ParameterPtr
  | DeleteAllInputParameters
  | DeleteAllOutputParameters
  | AddAtomInstance FunctionAtomPtr
  | AddAtomAssign int
  | DeleteAtomInstance FunctionAtomPtr
  | GetAtomInstances

fun call :: "ParameterFactory \<Rightarrow> Call \<Rightarrow> Function \<times> Heap \<Rightarrow> Function \<times> Heap" where
  "call fac (ResolveInputParameter s i c t) st = snd (resolveInputParameter fac s i c t st)"
| "call fac (ResolveOutputParameter s i c t) st = snd (resolveOutputParameter fac s i c t st)"
| "call fac (ResolveLocalParameterByName s i n t) st = snd (resolveLocalParameterByName s i n t st)"
| "call fac (ResolveLocalParameter s i c t) st = snd (resolveLocalParameter s i c t st)"
| "call fac (AddInputParameter p) st = (snd (addInputParameter (fst st) p), snd st)"
| "call fac (AddOutputParameter p) st = (snd (addOutputParameter (fst st) p), snd st)"
| "call fac (DeleteInputParameter p) st = (deleteInputParameter (fst st) p, snd st)"
| "call fac (DeleteOutputParameter p) st = (deleteOutputParameter (fst st) p, snd st)"
| "call fac DeleteAllInputParameters st = (deleteAllInputParameters (fst st), snd st)"
| "call fac DeleteAllOutputParameters st = (deleteAllOutputParameters (fst st), snd st)"
| "call fac (AddAtomInstance a) st = (addAtomInstance (fst st) a, snd st)"
| "call fac (AddAtomAssign g) st = addAtomAssign g st"
| "call fac (DeleteAtomInstance a) st = (snd (deleteAtomInstance (fst st) a), snd st)"
| "call fac GetAtomInstances st = (snd (getAtomInstances (fst st)), snd st)"

fun run :: "ParameterFactory \<Rightarrow> Call list \<Rightarrow> Function \<times> Heap \<Rightarrow> Function \<times> Heap" where
  "run fac [] st = st"
| "run fac (c # cs) st = run fac cs (call fac c st)"

text \<open>
  Successive calls of \<^verbatim>\<open>resolveInputParameter\<close>, one per argument tuple, with the outcome of
  each call.
\<close>

fun resolveInputs ::
  "ParameterFactory \<Rightarrow> (Semantic \<times> int \<times> Content \<times> GpuConstantType) list \<Rightarrow> Function \<times> Heap
     \<Rightarrow> (Failure + ParameterPtr) list \<times> (Function \<times> Heap)" where
  "resolveInputs fac [] st = ([], st)"
| "resolveInputs fac ((s, i, c, t) # args) st =
     (fst (resolveInputParameter fac s i c t st) #
        fst (resolveInputs fac args (snd (resolveInputParameter fac s i c t st))),
      snd (resolveInputs fac args (snd (resolveInputParameter fac s i c t st))))"

subsection \<open>The order of registration\<close>

text \<open>
  The atoms a Function holds, in the order of their registration, as the calls prescribe
  it: \<^verbatim>\<open>addAtomInstance\<close> appends; a \<^verbatim>\<open>deleteAtomInstance\<close> that finds the atom removes the
  first registered atom of the same group with the same address. This is the yardstick
  for \<^verbatim>\<open>getAtomInstances\<close>.
\<close>

fun unregister :: "FunctionAtomInstanceList \<Rightarrow> FunctionAtomPtr \<Rightarrow> FunctionAtomInstanceList" where
  "unregister [] atomInstance = []"
| "unregister (a # reg) atomInstance =
     (if atomKey a = atomKey atomInstance \<and> fst a = fst atomInstance then reg
      else a # unregister reg atomInstance)"

fun registerCall :: "Call \<Rightarrow> Heap \<Rightarrow> FunctionAtomInstanceList \<Rightarrow> FunctionAtomInstanceList" where
  "registerCall (AddAtomInstance a) h reg = reg @ [a]"
| "registerCall (AddAtomAssign g) h reg = reg @ [(h, g)]"
| "registerCall (DeleteAtomInstance a) h reg = unregister reg a"
| "registerCall _ h reg = reg"

fun registered ::
  "ParameterFactory \<Rightarrow> Call list \<Rightarrow> Function \<times> Heap \<Rightarrow> FunctionAtomInstanceList
     \<Rightarrow> FunctionAtomInstanceList" where
  "registered fac [] st reg = reg"
| "registered fac (c # cs) st reg = registered fac cs (call fac c st) (registerCall c (snd st) reg)"

text \<open>
  The state of the atom containers that the calls maintain: the keys of the map ascend,
  each bucket holds the registered atoms of its group in their order, and the cache is
  empty or the flattened map.
\<close>

definition atomsConsistent :: "Function \<Rightarrow> FunctionAtomInstanceList \<Rightarrow> bool" where
  "atomsConsistent f reg \<longleftrightarrow>
     sorted_wrt (<) (map fst (mAtomInstances f)) \<and>
     (\<forall>g. mapIndex (mAtomInstances f) g = filter (\<lambda>a. atomKey a = g) reg) \<and>
     (mSortedAtomInstances f = [] \<or>
      mSortedAtomInstances f = concat (map snd (mAtomInstances f)))"

subsection \<open>A parameter factory\<close>

text \<open>\<^verbatim>\<open>StringConverter::toString\<close> of an \<^verbatim>\<open>int\<close>.\<close>

definition toStringInt :: "int \<Rightarrow> string" where
  "toStringInt i = (if i < 0 then ''-'' @ toString (nat (- i)) else toString (nat i))"

definition newParameter ::
  "GpuConstantType \<Rightarrow> string \<Rightarrow> Semantic \<Rightarrow> Content \<Rightarrow> int \<Rightarrow> Parameter option" where
  "newParameter type stem semantic content index =
     Some \<lparr> getType = type, getName = stem @ toStringInt index, getSemantic = semantic,
            getIndex = index, getContent = content \<rparr>"

text \<open>
  Modelled from the spec: \<^verbatim>\<open>ParameterFactory\<close>, which is implemented outside
  \<^verbatim>\<open>OgreShaderFunction.cpp\<close>. The spec: it "constructs canonical Parameters for standard
  semantics (position, normal, color, texcoord, etc.) given an index and, for texcoords, a
  type and content", and each semantic but texcoord has "a fixed element type appropriate
  to that semantic". The spec gives neither the names nor the contents of the
  parameters that are not texcoords; here the name is a prefix for the direction and the
  semantic followed by the index. The theorems below hold for every factory; this one
  is the instance at which they are evaluated.
\<close>

definition sampleFactory :: ParameterFactory where
  "sampleFactory =
     \<lparr> createInPosition = newParameter GCT_FLOAT4 ''iPos_'' SPS_POSITION SPC_POSITION_OBJECT_SPACE,
       createInWeights = newParameter GCT_FLOAT4 ''iBlendWeights_'' SPS_BLEND_WEIGHTS (SPC_OTHER 0),
       createInIndices = newParameter GCT_FLOAT4 ''iBlendIndices_'' SPS_BLEND_INDICES (SPC_OTHER 1),
       createInNormal = newParameter GCT_FLOAT3 ''iNormal_'' SPS_NORMAL SPC_NORMAL_OBJECT_SPACE,
       createInColor = newParameter GCT_FLOAT4 ''iColor_'' SPS_COLOR SPC_COLOR_DIFFUSE,
       createInTexcoord =
         (\<lambda>type index content.
            newParameter type ''iTexcoord_'' SPS_TEXTURE_COORDINATES content index),
       createInBiNormal = newParameter GCT_FLOAT3 ''iBiNormal_'' SPS_BINORMAL (SPC_OTHER 2),
       createInTangent = newParameter GCT_FLOAT3 ''iTangent_'' SPS_TANGENT (SPC_OTHER 3),
       createOutPosition =
         newParameter GCT_FLOAT4 ''oPos_'' SPS_POSITION SPC_POSITION_PROJECTIVE_SPACE,
       createOutNormal = newParameter GCT_FLOAT3 ''oNormal_'' SPS_NORMAL SPC_NORMAL_OBJECT_SPACE,
       createOutColor = newParameter GCT_FLOAT4 ''oColor_'' SPS_COLOR SPC_COLOR_DIFFUSE,
       createOutTexcoord =
         (\<lambda>type index content.
            newParameter type ''oTexcoord_'' SPS_TEXTURE_COORDINATES content index),
       createOutBiNormal = newParameter GCT_FLOAT3 ''oBiNormal_'' SPS_BINORMAL (SPC_OTHER 2),
       createOutTangent = newParameter GCT_FLOAT3 ''oTangent_'' SPS_TANGENT (SPC_OTHER 3) \<rparr>"

text \<open>
  What a caller may expect of a factory: the parameter it constructs for a semantic and
  an index has that semantic and that index.
\<close>

definition stampsInput :: "ParameterFactory \<Rightarrow> Semantic \<Rightarrow> bool" where
  "stampsInput fac semantic \<longleftrightarrow>
     (\<forall>type index content h p h'.
        inputSwitch fac semantic type index content None h = Inr (Some p, h')
          \<longrightarrow> getSemantic (snd p) = semantic \<and> getIndex (snd p) = index)"

subsection \<open>Objects for the examples\<close>

definition mainFunction :: Function where
  "mainFunction = newFunction ''main'' ''entry point'' 0"

text \<open>A pointer to a Parameter object at a given address.\<close>

definition parameterAt ::
  "nat \<Rightarrow> GpuConstantType \<Rightarrow> string \<Rightarrow> Semantic \<Rightarrow> int \<Rightarrow> Content \<Rightarrow> ParameterRef" where
  "parameterAt a type name semantic index content =
     (a, \<lparr> getType = type, getName = name, getSemantic = semantic, getIndex = index,
           getContent = content \<rparr>)"

section \<open>Properties\<close>

subsection \<open>Deriving a type from a content\<close>

lemma typeFromContent_known: "typeFromContent c = Inr t \<Longrightarrow> t \<noteq> GCT_UNKNOWN"
  by (cases c) auto

lemma typeFromContent_table:
  "typeFromContent c =
     (if c \<in> {SPC_COLOR_DIFFUSE, SPC_COLOR_SPECULAR, SPC_POSITION_PROJECTIVE_SPACE,
               SPC_POSITION_WORLD_SPACE, SPC_POSITION_OBJECT_SPACE} then Inr GCT_FLOAT4
      else if c \<in> {SPC_NORMAL_TANGENT_SPACE, SPC_NORMAL_OBJECT_SPACE, SPC_NORMAL_WORLD_SPACE}
      then Inr GCT_FLOAT3
      else if c = SPC_POINTSPRITE_SIZE then Inr GCT_FLOAT1
      else Inl (ERR_INVALIDPARAMS CannotDeriveType))"
  by (cases c) simp_all

lemma getParameterByContent_unknown_type:
  "getParameterByContent l c GCT_UNKNOWN =
     (case typeFromContent c of Inl e \<Rightarrow> Inl e | Inr t \<Rightarrow> getParameterByContent l c t)"
  by (auto simp: getParameterByContent_def split: sum.splits dest: typeFromContent_known)

lemma resolveLocalParameter_unknown_type:
  "resolveLocalParameter s i c GCT_UNKNOWN st =
     (case typeFromContent c of Inl e \<Rightarrow> (Inl e, st)
      | Inr t \<Rightarrow> resolveLocalParameter s i c t st)"
  by (auto simp: resolveLocalParameter_def split: sum.splits dest: typeFromContent_known)

text \<open>
  C7. When the element type passed is \<^verbatim>\<open>GCT_UNKNOWN\<close>, the type is derived from the
  content role by a fixed table: diffuse colour, specular colour and the projective,
  world and object space positions give \<^verbatim>\<open>GCT_FLOAT4\<close>; the tangent, object and world space
  normals give \<^verbatim>\<open>GCT_FLOAT3\<close>; the point sprite size gives \<^verbatim>\<open>GCT_FLOAT1\<close>; every other
  content role is an invalid-parameter error and no default type is used. The lookup by
  content and the local resolution by content work with the derived type, and the three
  resolutions by content fail with that error, changing nothing, when there is none.
\<close>

theorem C7_type_from_content:
  "typeFromContent c =
     (if c \<in> {SPC_COLOR_DIFFUSE, SPC_COLOR_SPECULAR, SPC_POSITION_PROJECTIVE_SPACE,
               SPC_POSITION_WORLD_SPACE, SPC_POSITION_OBJECT_SPACE} then Inr GCT_FLOAT4
      else if c \<in> {SPC_NORMAL_TANGENT_SPACE, SPC_NORMAL_OBJECT_SPACE, SPC_NORMAL_WORLD_SPACE}
      then Inr GCT_FLOAT3
      else if c = SPC_POINTSPRITE_SIZE then Inr GCT_FLOAT1
      else Inl (ERR_INVALIDPARAMS CannotDeriveType))
   \<and> getParameterByContent l c GCT_UNKNOWN =
       (case typeFromContent c of Inl e \<Rightarrow> Inl e | Inr t \<Rightarrow> getParameterByContent l c t)
   \<and> resolveLocalParameter s i c GCT_UNKNOWN st =
       (case typeFromContent c of Inl e \<Rightarrow> (Inl e, st)
        | Inr t \<Rightarrow> resolveLocalParameter s i c t st)
   \<and> (\<forall>e. typeFromContent c = Inl e \<longrightarrow>
         resolveInputParameter fac s i c GCT_UNKNOWN st = (Inl e, st) \<and>
         resolveOutputParameter fac s i c GCT_UNKNOWN st = (Inl e, st))"
  using typeFromContent_table [of c] getParameterByContent_unknown_type [of l c]
    resolveLocalParameter_unknown_type [of s i c st]
  by (simp add: resolveInputParameter_def resolveOutputParameter_def getParameterByContent_def)

theorem C7_type_from_content_witness:
  "typeFromContent SPC_COLOR_DIFFUSE = Inr GCT_FLOAT4
   \<and> typeFromContent SPC_NORMAL_WORLD_SPACE = Inr GCT_FLOAT3
   \<and> typeFromContent SPC_POINTSPRITE_SIZE = Inr GCT_FLOAT1
   \<and> typeFromContent (SPC_OTHER 0) = Inl (ERR_INVALIDPARAMS CannotDeriveType)
   \<and> resolveInputParameter sampleFactory SPS_TEXTURE_COORDINATES 0 (SPC_OTHER 0) GCT_UNKNOWN
       (newFunction ''main'' '''' 0, 0)
     = (Inl (ERR_INVALIDPARAMS CannotDeriveType), (newFunction ''main'' '''' 0, 0))
   \<and> resolveOutputParameter sampleFactory SPS_TEXTURE_COORDINATES 0 (SPC_OTHER 0) GCT_UNKNOWN
       (newFunction ''main'' '''' 0, 0)
     = (Inl (ERR_INVALIDPARAMS CannotDeriveType), (newFunction ''main'' '''' 0, 0))"
  using C7_type_from_content [of SPC_COLOR_DIFFUSE]
    C7_type_from_content [of SPC_NORMAL_WORLD_SPACE]
    C7_type_from_content [of SPC_POINTSPRITE_SIZE]
    C7_type_from_content [of "SPC_OTHER 0" _ _ _ "(newFunction ''main'' '''' 0, 0)" sampleFactory]
  by simp

subsection \<open>Lookups\<close>

lemma getParameterByName_None:
  "getParameterByName l n = None \<longleftrightarrow> \<not> (\<exists>q\<in>set l. getName (snd q) = n)"
  by (fastforce simp: getParameterByName_def find_None_iff)

lemma getParameterBySemantic_None:
  "getParameterBySemantic l s i = None
     \<longleftrightarrow> \<not> (\<exists>q\<in>set l. getSemantic (snd q) = s \<and> getIndex (snd q) = i)"
  by (fastforce simp: getParameterBySemantic_def find_None_iff)

lemma getParameterBySemantic_Some:
  "getParameterBySemantic l s i = Some p
     \<Longrightarrow> p \<in> set l \<and> getSemantic (snd p) = s \<and> getIndex (snd p) = i"
  by (auto simp: getParameterBySemantic_def find_Some_iff)

lemma getParameterByContent_Some:
  "getParameterByContent l c t = Inr (Some p) \<Longrightarrow> p \<in> set l \<and> getContent (snd p) = c"
  by (auto simp: getParameterByContent_def find_Some_iff split: sum.splits if_splits)

subsection \<open>Adding parameters\<close>

lemma addParameter_eq:
  "addParameter f l p =
     (if \<exists>q\<in>set (mInputParameters f) \<union> set (mOutputParameters f).
           getName (snd q) = getName (snd p)
      then Inl (ERR_INVALIDPARAMS (AlreadyDeclared (getName (snd p)) (mName f)))
      else Inr (l @ [p]))"
  by (auto simp: addParameter_def getParameterByName_None)

lemma addInputParameter_eq:
  "addInputParameter f p =
     (if \<exists>q\<in>set (mInputParameters f).
           getSemantic (snd q) = getSemantic (snd p) \<and> getIndex (snd q) = getIndex (snd p)
      then (Inl (ERR_INVALIDPARAMS (EqualSemantic (getName (snd p)) (mName f))), f)
      else if \<exists>q\<in>set (mInputParameters f) \<union> set (mOutputParameters f).
                getName (snd q) = getName (snd p)
      then (Inl (ERR_INVALIDPARAMS (AlreadyDeclared (getName (snd p)) (mName f))), f)
      else (Inr (), f\<lparr>mInputParameters := mInputParameters f @ [p]\<rparr>))"
  unfolding addInputParameter_def addParameter_eq getParameterBySemantic_None
  by simp

lemma addOutputParameter_eq:
  "addOutputParameter f p =
     (if \<exists>q\<in>set (mOutputParameters f).
           getSemantic (snd q) = getSemantic (snd p) \<and> getIndex (snd q) = getIndex (snd p)
      then (Inl (ERR_INVALIDPARAMS (EqualSemantic (getName (snd p)) (mName f))), f)
      else if \<exists>q\<in>set (mInputParameters f) \<union> set (mOutputParameters f).
                getName (snd q) = getName (snd p)
      then (Inl (ERR_INVALIDPARAMS (AlreadyDeclared (getName (snd p)) (mName f))), f)
      else (Inr (), f\<lparr>mOutputParameters := mOutputParameters f @ [p]\<rparr>))"
  unfolding addOutputParameter_def addParameter_eq getParameterBySemantic_None
  by simp

text \<open>
  C6. \<^verbatim>\<open>addInputParameter\<close> throws an invalid-parameter error exactly when the input list
  holds a parameter with the same semantic and index, or the input or the output list
  holds a parameter with the same name; \<^verbatim>\<open>addOutputParameter\<close> does the same with the
  output list for the semantic and index. The outcome does not depend on the local list.
  A throw leaves the Function as it was, and a call that returns has appended the
  parameter to the end of its list.
\<close>

theorem C6_add_parameter:
  "addInputParameter f p =
     (if \<exists>q\<in>set (mInputParameters f).
           getSemantic (snd q) = getSemantic (snd p) \<and> getIndex (snd q) = getIndex (snd p)
      then (Inl (ERR_INVALIDPARAMS (EqualSemantic (getName (snd p)) (mName f))), f)
      else if \<exists>q\<in>set (mInputParameters f) \<union> set (mOutputParameters f).
                getName (snd q) = getName (snd p)
      then (Inl (ERR_INVALIDPARAMS (AlreadyDeclared (getName (snd p)) (mName f))), f)
      else (Inr (), f\<lparr>mInputParameters := mInputParameters f @ [p]\<rparr>))
   \<and> addOutputParameter f p =
     (if \<exists>q\<in>set (mOutputParameters f).
           getSemantic (snd q) = getSemantic (snd p) \<and> getIndex (snd q) = getIndex (snd p)
      then (Inl (ERR_INVALIDPARAMS (EqualSemantic (getName (snd p)) (mName f))), f)
      else if \<exists>q\<in>set (mInputParameters f) \<union> set (mOutputParameters f).
                getName (snd q) = getName (snd p)
      then (Inl (ERR_INVALIDPARAMS (AlreadyDeclared (getName (snd p)) (mName f))), f)
      else (Inr (), f\<lparr>mOutputParameters := mOutputParameters f @ [p]\<rparr>))
   \<and> fst (addInputParameter (f\<lparr>mLocalParameters := l\<rparr>) p) = fst (addInputParameter f p)
   \<and> fst (addOutputParameter (f\<lparr>mLocalParameters := l\<rparr>) p) = fst (addOutputParameter f p)"
  by (simp add: addInputParameter_eq addOutputParameter_eq)

text \<open>
  At a Function whose input list holds \<open>iColor_0\<close> and whose local list holds \<open>lTmp\<close>:
  a second colour 0 is refused for its semantic and index, an output named \<open>iColor_0\<close>
  for its name, and an input named \<open>lTmp\<close> is appended.
\<close>

theorem C6_add_parameter_witness:
  "addInputParameter
     (mainFunction\<lparr>mInputParameters := [parameterAt 0 GCT_FLOAT4 ''iColor_0'' SPS_COLOR 0 SPC_COLOR_DIFFUSE],
                   mLocalParameters := [parameterAt 1 GCT_FLOAT4 ''lTmp'' SPS_UNKNOWN 0 SPC_UNKNOWN]\<rparr>)
     (parameterAt 2 GCT_FLOAT4 ''other'' SPS_COLOR 0 SPC_COLOR_SPECULAR)
   = (Inl (ERR_INVALIDPARAMS (EqualSemantic ''other'' ''main'')),
      mainFunction\<lparr>mInputParameters := [parameterAt 0 GCT_FLOAT4 ''iColor_0'' SPS_COLOR 0 SPC_COLOR_DIFFUSE],
                   mLocalParameters := [parameterAt 1 GCT_FLOAT4 ''lTmp'' SPS_UNKNOWN 0 SPC_UNKNOWN]\<rparr>)
   \<and> addOutputParameter
     (mainFunction\<lparr>mInputParameters := [parameterAt 0 GCT_FLOAT4 ''iColor_0'' SPS_COLOR 0 SPC_COLOR_DIFFUSE],
                   mLocalParameters := [parameterAt 1 GCT_FLOAT4 ''lTmp'' SPS_UNKNOWN 0 SPC_UNKNOWN]\<rparr>)
     (parameterAt 2 GCT_FLOAT4 ''iColor_0'' SPS_COLOR 0 SPC_COLOR_DIFFUSE)
   = (Inl (ERR_INVALIDPARAMS (AlreadyDeclared ''iColor_0'' ''main'')),
      mainFunction\<lparr>mInputParameters := [parameterAt 0 GCT_FLOAT4 ''iColor_0'' SPS_COLOR 0 SPC_COLOR_DIFFUSE],
                   mLocalParameters := [parameterAt 1 GCT_FLOAT4 ''lTmp'' SPS_UNKNOWN 0 SPC_UNKNOWN]\<rparr>)
   \<and> addInputParameter
     (mainFunction\<lparr>mInputParameters := [parameterAt 0 GCT_FLOAT4 ''iColor_0'' SPS_COLOR 0 SPC_COLOR_DIFFUSE],
                   mLocalParameters := [parameterAt 1 GCT_FLOAT4 ''lTmp'' SPS_UNKNOWN 0 SPC_UNKNOWN]\<rparr>)
     (parameterAt 2 GCT_FLOAT4 ''lTmp'' SPS_COLOR 1 SPC_COLOR_SPECULAR)
   = (Inr (),
      mainFunction\<lparr>mInputParameters := [parameterAt 0 GCT_FLOAT4 ''iColor_0'' SPS_COLOR 0 SPC_COLOR_DIFFUSE,
                                         parameterAt 2 GCT_FLOAT4 ''lTmp'' SPS_COLOR 1 SPC_COLOR_SPECULAR],
                   mLocalParameters := [parameterAt 1 GCT_FLOAT4 ''lTmp'' SPS_UNKNOWN 0 SPC_UNKNOWN]\<rparr>)"
  using
    C6_add_parameter [of
      "mainFunction\<lparr>mInputParameters := [parameterAt 0 GCT_FLOAT4 ''iColor_0'' SPS_COLOR 0 SPC_COLOR_DIFFUSE],
                   mLocalParameters := [parameterAt 1 GCT_FLOAT4 ''lTmp'' SPS_UNKNOWN 0 SPC_UNKNOWN]\<rparr>"
      "parameterAt 2 GCT_FLOAT4 ''other'' SPS_COLOR 0 SPC_COLOR_SPECULAR"]
    C6_add_parameter [of
      "mainFunction\<lparr>mInputParameters := [parameterAt 0 GCT_FLOAT4 ''iColor_0'' SPS_COLOR 0 SPC_COLOR_DIFFUSE],
                   mLocalParameters := [parameterAt 1 GCT_FLOAT4 ''lTmp'' SPS_UNKNOWN 0 SPC_UNKNOWN]\<rparr>"
      "parameterAt 2 GCT_FLOAT4 ''iColor_0'' SPS_COLOR 0 SPC_COLOR_DIFFUSE"]
    C6_add_parameter [of
      "mainFunction\<lparr>mInputParameters := [parameterAt 0 GCT_FLOAT4 ''iColor_0'' SPS_COLOR 0 SPC_COLOR_DIFFUSE],
                   mLocalParameters := [parameterAt 1 GCT_FLOAT4 ''lTmp'' SPS_UNKNOWN 0 SPC_UNKNOWN]\<rparr>"
      "parameterAt 2 GCT_FLOAT4 ''lTmp'' SPS_COLOR 1 SPC_COLOR_SPECULAR"]
  by (simp add: mainFunction_def newFunction_def parameterAt_def)

subsection \<open>Resolution at an explicit index\<close>



text \<open>
  C10, as the code has it. When the lookup by content and type finds nothing in the input
  list, the index is explicit, the input list holds a parameter at that semantic and
  index, and its content is not the requested one, then \<^verbatim>\<open>resolveInputParameter\<close> does
  not return that parameter. It goes on to the switch on the semantic: a failed type
  assertion aborts the call, a null result of the factory is returned as null, and a
  parameter from the switch (the one the factory constructs; for the unknown semantic
  the parameter found) goes to \<^verbatim>\<open>addInputParameter\<close>. Whenever that parameter has the
  requested semantic and index, \<^verbatim>\<open>addInputParameter\<close> refuses it: the call throws the
  invalid-parameter error for the duplicate semantic and index, and the Function is
  unchanged.
\<close>

theorem C10_occupied_slot:
  assumes "getParameterByContent (mInputParameters f) c t = Inr None"
    and "i \<noteq> - 1"
    and "getParameterBySemantic (mInputParameters f) s i = Some p"
    and "getContent (snd p) \<noteq> c"
  shows "resolveInputParameter fac s i c t (f, h) =
      (case inputSwitch fac s t i c (Some p) h of
         Inl e \<Rightarrow> (Inl e, (f, h))
       | Inr (None, h') \<Rightarrow> (Inr None, (f, h'))
       | Inr (Some q, h') \<Rightarrow>
           (if \<exists>r\<in>set (mInputParameters f).
                 getSemantic (snd r) = getSemantic (snd q) \<and> getIndex (snd r) = getIndex (snd q)
            then (Inl (ERR_INVALIDPARAMS (EqualSemantic (getName (snd q)) (mName f))), (f, h'))
            else if \<exists>r\<in>set (mInputParameters f) \<union> set (mOutputParameters f).
                      getName (snd r) = getName (snd q)
            then (Inl (ERR_INVALIDPARAMS (AlreadyDeclared (getName (snd q)) (mName f))), (f, h'))
            else (Inr (Some q), (f\<lparr>mInputParameters := mInputParameters f @ [q]\<rparr>, h'))))
    \<and> fst (resolveInputParameter fac s i c t (f, h)) \<noteq> Inr (Some p)
    \<and> (\<forall>q h'. inputSwitch fac s t i c (Some p) h = Inr (Some q, h')
          \<and> getSemantic (snd q) = s \<and> getIndex (snd q) = i
        \<longrightarrow> resolveInputParameter fac s i c t (f, h) =
              (Inl (ERR_INVALIDPARAMS (EqualSemantic (getName (snd q)) (mName f))), (f, h')))"
proof -
  have create: "resolveInputParameter fac s i c t (f, h) = createInput fac s i c t (Some p) (f, h)"
    using assms by (simp add: resolveInputParameter_def)
  have split: "createInput fac s i c t (Some p) (f, h) =
      (case inputSwitch fac s t i c (Some p) h of
         Inl e \<Rightarrow> (Inl e, (f, h))
       | Inr (None, h') \<Rightarrow> (Inr None, (f, h'))
       | Inr (Some q, h') \<Rightarrow>
           (if \<exists>r\<in>set (mInputParameters f).
                 getSemantic (snd r) = getSemantic (snd q) \<and> getIndex (snd r) = getIndex (snd q)
            then (Inl (ERR_INVALIDPARAMS (EqualSemantic (getName (snd q)) (mName f))), (f, h'))
            else if \<exists>r\<in>set (mInputParameters f) \<union> set (mOutputParameters f).
                      getName (snd r) = getName (snd q)
            then (Inl (ERR_INVALIDPARAMS (AlreadyDeclared (getName (snd q)) (mName f))), (f, h'))
            else (Inr (Some q), (f\<lparr>mInputParameters := mInputParameters f @ [q]\<rparr>, h'))))"
    by (simp add: createInput_def addInputParameter_eq split: sum.splits option.splits prod.splits)
      blast
  from getParameterBySemantic_Some [OF assms(3)]
  have held: "p \<in> set (mInputParameters f)" "getSemantic (snd p) = s" "getIndex (snd p) = i"
    by simp_all
  have other: "fst (createInput fac s i c t (Some p) (f, h)) \<noteq> Inr (Some p)"
    unfolding split using held(1)
    by (auto split: sum.splits option.splits prod.splits)
  have refused: "createInput fac s i c t (Some p) (f, h) =
        (Inl (ERR_INVALIDPARAMS (EqualSemantic (getName (snd q)) (mName f))), (f, h'))"
    if "inputSwitch fac s t i c (Some p) h = Inr (Some q, h')"
      and "getSemantic (snd q) = s" and "getIndex (snd q) = i" for q h'
    unfolding split using that held by auto
  show ?thesis
    unfolding create using split other refused by blast
qed

text \<open>
  Texcoord 0 holds a parameter of content \<open>SPC_OTHER 0\<close>; the request for content
  \<open>SPC_OTHER 1\<close> at texcoord 0 throws, and the list still holds that one parameter.
\<close>

theorem C10_occupied_slot_witness:
  "resolveInputParameter sampleFactory SPS_TEXTURE_COORDINATES 0 (SPC_OTHER 1) GCT_FLOAT2
     (mainFunction\<lparr>mInputParameters :=
        [parameterAt 0 GCT_FLOAT2 ''uv'' SPS_TEXTURE_COORDINATES 0 (SPC_OTHER 0)]\<rparr>, 1)
   = (Inl (ERR_INVALIDPARAMS (EqualSemantic ''iTexcoord_0'' ''main'')),
      (mainFunction\<lparr>mInputParameters :=
        [parameterAt 0 GCT_FLOAT2 ''uv'' SPS_TEXTURE_COORDINATES 0 (SPC_OTHER 0)]\<rparr>, 2))"
proof -
  have name: "toStringInt 0 = ''0''"
    by (simp add: toStringInt_def toString.simps)
  have miss: "getParameterByContent
      (mInputParameters (mainFunction\<lparr>mInputParameters :=
        [parameterAt 0 GCT_FLOAT2 ''uv'' SPS_TEXTURE_COORDINATES 0 (SPC_OTHER 0)]\<rparr>))
      (SPC_OTHER 1) GCT_FLOAT2 = Inr None"
    by (simp add: parameterAt_def getParameterByContent_def)
  have explicit: "(0::int) \<noteq> - 1" by simp
  have held: "getParameterBySemantic
      (mInputParameters (mainFunction\<lparr>mInputParameters :=
        [parameterAt 0 GCT_FLOAT2 ''uv'' SPS_TEXTURE_COORDINATES 0 (SPC_OTHER 0)]\<rparr>))
      SPS_TEXTURE_COORDINATES 0
      = Some (parameterAt 0 GCT_FLOAT2 ''uv'' SPS_TEXTURE_COORDINATES 0 (SPC_OTHER 0))"
    by (simp add: parameterAt_def getParameterBySemantic_def)
  have differs: "getContent (snd (parameterAt 0 GCT_FLOAT2 ''uv'' SPS_TEXTURE_COORDINATES 0
      (SPC_OTHER 0))) \<noteq> SPC_OTHER 1"
    by (simp add: parameterAt_def)
  show ?thesis
    using C10_occupied_slot [OF miss explicit held differs, of sampleFactory 1,
        THEN conjunct2, THEN conjunct2, rule_format,
        of "parameterAt 1 GCT_FLOAT2 ''iTexcoord_0'' SPS_TEXTURE_COORDINATES 0 (SPC_OTHER 1)" 2]
    by (simp add: mainFunction_def newFunction_def parameterAt_def sampleFactory_def
        newParameter_def name)
qed

text \<open>
  The claim holds only where the switch yields a parameter for the slot. The input list
  holds \<open>iColor_0\<close>, the diffuse colour with four components at colour 0, and no specular
  colour. A request for the specular colour at colour 0 with three components meets the
  assertion of the colour semantic, which aborts the call; no invalid-parameter error is
  thrown. And where the factory returns no texcoord, a request for another content at
  an occupied texcoord slot returns null, without an error.
\<close>

theorem C10_occupied_slot_counterexample:
  "getParameterByContent [parameterAt 0 GCT_FLOAT4 ''iColor_0'' SPS_COLOR 0 SPC_COLOR_DIFFUSE]
     SPC_COLOR_SPECULAR GCT_FLOAT3 = Inr None
   \<and> getParameterBySemantic [parameterAt 0 GCT_FLOAT4 ''iColor_0'' SPS_COLOR 0 SPC_COLOR_DIFFUSE]
     SPS_COLOR 0 = Some (parameterAt 0 GCT_FLOAT4 ''iColor_0'' SPS_COLOR 0 SPC_COLOR_DIFFUSE)
   \<and> resolveInputParameter sampleFactory SPS_COLOR 0 SPC_COLOR_SPECULAR GCT_FLOAT3
     (mainFunction\<lparr>mInputParameters :=
        [parameterAt 0 GCT_FLOAT4 ''iColor_0'' SPS_COLOR 0 SPC_COLOR_DIFFUSE]\<rparr>, 1)
   = (Inl AssertionFailed,
      (mainFunction\<lparr>mInputParameters :=
        [parameterAt 0 GCT_FLOAT4 ''iColor_0'' SPS_COLOR 0 SPC_COLOR_DIFFUSE]\<rparr>, 1))
   \<and> resolveInputParameter (sampleFactory\<lparr>createInTexcoord := \<lambda>type index content. None\<rparr>)
     SPS_TEXTURE_COORDINATES 0 (SPC_OTHER 1) GCT_FLOAT2
     (mainFunction\<lparr>mInputParameters :=
        [parameterAt 0 GCT_FLOAT2 ''uv'' SPS_TEXTURE_COORDINATES 0 (SPC_OTHER 0)]\<rparr>, 1)
   = (Inr None,
      (mainFunction\<lparr>mInputParameters :=
        [parameterAt 0 GCT_FLOAT2 ''uv'' SPS_TEXTURE_COORDINATES 0 (SPC_OTHER 0)]\<rparr>, 1))"
  by (simp add: resolveInputParameter_def createInput_def
      mainFunction_def newFunction_def parameterAt_def getParameterByContent_def
      getParameterBySemantic_def)

subsection \<open>The unknown semantic and the blend semantics\<close>

lemma createInput_unknown:
  "createInput fac SPS_UNKNOWN i c t None st = (Inr None, st)"
  by (simp add: createInput_def)

lemma createOutput_unknown:
  "createOutput fac SPS_UNKNOWN i c t None st = (Inr None, st)"
  by (simp add: createOutput_def)

text \<open>
  C9, as the code has it. When the lookup by content and type finds nothing in the input
  list, and the index is \<open>-1\<close> or the input list holds no parameter of the unknown semantic
  at the index, \<^verbatim>\<open>resolveInputParameter\<close> with the unknown semantic returns a null
  parameter and changes nothing. \<^verbatim>\<open>resolveOutputParameter\<close> does the same over the output
  list.
\<close>

theorem C9_unknown_semantic:
  "(getParameterByContent (mInputParameters (fst st)) c t = Inr None
      \<and> (i = - 1 \<or> getParameterBySemantic (mInputParameters (fst st)) SPS_UNKNOWN i = None)
    \<longrightarrow> resolveInputParameter fac SPS_UNKNOWN i c t st = (Inr None, st))
   \<and> (getParameterByContent (mOutputParameters (fst st)) c t = Inr None
      \<and> (i = - 1 \<or> getParameterBySemantic (mOutputParameters (fst st)) SPS_UNKNOWN i = None)
    \<longrightarrow> resolveOutputParameter fac SPS_UNKNOWN i c t st = (Inr None, st))"
  by (auto simp: resolveInputParameter_def resolveOutputParameter_def
      createInput_unknown createOutput_unknown)

theorem C9_unknown_semantic_witness:
  "resolveInputParameter sampleFactory SPS_UNKNOWN (- 1) SPC_COLOR_DIFFUSE GCT_FLOAT4
     (mainFunction\<lparr>mInputParameters := [parameterAt 0 GCT_FLOAT3 ''c0'' SPS_COLOR 0 SPC_COLOR_DIFFUSE]\<rparr>, 1)
   = (Inr None,
      (mainFunction\<lparr>mInputParameters := [parameterAt 0 GCT_FLOAT3 ''c0'' SPS_COLOR 0 SPC_COLOR_DIFFUSE]\<rparr>, 1))
   \<and> resolveOutputParameter sampleFactory SPS_UNKNOWN 0 SPC_COLOR_DIFFUSE GCT_FLOAT4
     (mainFunction, 0)
   = (Inr None, (mainFunction, 0))"
  using
    C9_unknown_semantic [of
      "(mainFunction\<lparr>mInputParameters := [parameterAt 0 GCT_FLOAT3 ''c0'' SPS_COLOR 0 SPC_COLOR_DIFFUSE]\<rparr>, 1)"
      SPC_COLOR_DIFFUSE GCT_FLOAT4 "- 1" sampleFactory]
    C9_unknown_semantic [of "(mainFunction, 0)" SPC_COLOR_DIFFUSE GCT_FLOAT4 0 sampleFactory]
  by (simp add: mainFunction_def newFunction_def parameterAt_def getParameterByContent_def
      getParameterBySemantic_def)

text \<open>
  The claim without the condition on the index fails. The input list holds \<open>x\<close>, of the
  unknown semantic at index 0, with three components and diffuse colour as content
  (registered by \<^verbatim>\<open>addInputParameter\<close>); no input parameter has diffuse colour with four
  components. The unknown semantic at index 0 with diffuse colour and four components
  throws the type mismatch, and with specular colour it throws the duplicate semantic
  of \<open>x\<close>: the switch leaves the variable \<^verbatim>\<open>param\<close> at \<open>x\<close>, which is registered a second
  time. Neither call returns null.
\<close>

theorem C9_unknown_semantic_counterexample:
  "getParameterByContent [parameterAt 0 GCT_FLOAT3 ''x'' SPS_UNKNOWN 0 SPC_COLOR_DIFFUSE]
     SPC_COLOR_DIFFUSE GCT_FLOAT4 = Inr None
   \<and> resolveInputParameter sampleFactory SPS_UNKNOWN 0 SPC_COLOR_DIFFUSE GCT_FLOAT4
     (mainFunction\<lparr>mInputParameters := [parameterAt 0 GCT_FLOAT3 ''x'' SPS_UNKNOWN 0 SPC_COLOR_DIFFUSE]\<rparr>, 1)
   = (Inl (ERR_INVALIDPARAMS (ResolveTypeMismatch SPS_UNKNOWN 0 ''main'')),
      (mainFunction\<lparr>mInputParameters := [parameterAt 0 GCT_FLOAT3 ''x'' SPS_UNKNOWN 0 SPC_COLOR_DIFFUSE]\<rparr>, 1))
   \<and> addInputParameter mainFunction (parameterAt 0 GCT_FLOAT3 ''x'' SPS_UNKNOWN 0 SPC_COLOR_DIFFUSE)
   = (Inr (),
      mainFunction\<lparr>mInputParameters := [parameterAt 0 GCT_FLOAT3 ''x'' SPS_UNKNOWN 0 SPC_COLOR_DIFFUSE]\<rparr>)
   \<and> getParameterByContent [parameterAt 0 GCT_FLOAT3 ''x'' SPS_UNKNOWN 0 SPC_COLOR_DIFFUSE]
     SPC_COLOR_SPECULAR GCT_FLOAT4 = Inr None
   \<and> resolveInputParameter sampleFactory SPS_UNKNOWN 0 SPC_COLOR_SPECULAR GCT_FLOAT4
     (mainFunction\<lparr>mInputParameters := [parameterAt 0 GCT_FLOAT3 ''x'' SPS_UNKNOWN 0 SPC_COLOR_DIFFUSE]\<rparr>, 1)
   = (Inl (ERR_INVALIDPARAMS (EqualSemantic ''x'' ''main'')),
      (mainFunction\<lparr>mInputParameters := [parameterAt 0 GCT_FLOAT3 ''x'' SPS_UNKNOWN 0 SPC_COLOR_DIFFUSE]\<rparr>, 1))"
  by (simp add: resolveInputParameter_def createInput_def addInputParameter_def
      addParameter_def getParameterByName_def
      mainFunction_def newFunction_def parameterAt_def getParameterByContent_def
      getParameterBySemantic_def)

lemma getParameterByContent_throws:
  "getParameterByContent l c t = Inl e \<Longrightarrow> e = ERR_INVALIDPARAMS CannotDeriveType"
  by (cases c) (auto simp: getParameterByContent_def split: if_splits)

lemma createOutput_blend:
  "semantic = SPS_BLEND_WEIGHTS \<or> semantic = SPS_BLEND_INDICES \<Longrightarrow>
   createOutput fac semantic i c t param st =
     (Inl (ERR_INVALIDPARAMS (ResolveNotImplemented semantic i (mName (fst st)))), st)"
  by (auto simp: createOutput_def)

text \<open>
  C4, as the code has it. \<^verbatim>\<open>resolveOutputParameter\<close> with the semantic blend weights or
  blend indices first looks the content and type up in the output list and returns the
  parameter found there. When there is none and the index is explicit, it looks at that
  semantic and index: a parameter found there with the requested content is returned if
  its type is the requested one, and is a type mismatch otherwise. In every other case the
  call throws the invalid-parameter error that blend semantics are not implemented for
  outputs. So the call never changes the Function and registers nothing, it never
  returns null, a parameter it returns is one the output list already holds, and every
  failure is an invalid-parameter error.
\<close>

theorem C4_blend_output:
  assumes "semantic = SPS_BLEND_WEIGHTS \<or> semantic = SPS_BLEND_INDICES"
  shows "resolveOutputParameter fac semantic index content type st =
     (case getParameterByContent (mOutputParameters (fst st)) content type of
        Inl e \<Rightarrow> (Inl (ERR_INVALIDPARAMS CannotDeriveType), st)
      | Inr (Some p) \<Rightarrow> (Inr (Some p), st)
      | Inr None \<Rightarrow>
          (if index = - 1
           then (Inl (ERR_INVALIDPARAMS (ResolveNotImplemented semantic
                   (nextIndex (mOutputParameters (fst st)) semantic) (mName (fst st)))), st)
           else
             (case getParameterBySemantic (mOutputParameters (fst st)) semantic index of
                None \<Rightarrow>
                  (Inl (ERR_INVALIDPARAMS (ResolveNotImplemented semantic index
                     (mName (fst st)))), st)
              | Some p \<Rightarrow>
                  (if getContent (snd p) = content
                   then (if getType (snd p) = type then (Inr (Some p), st)
                         else (Inl (ERR_INVALIDPARAMS
                                 (ResolveTypeMismatch semantic index (mName (fst st)))), st))
                   else (Inl (ERR_INVALIDPARAMS (ResolveNotImplemented semantic index
                           (mName (fst st)))), st)))))
   \<and> snd (resolveOutputParameter fac semantic index content type st) = st
   \<and> (case fst (resolveOutputParameter fac semantic index content type st) of
        Inl e \<Rightarrow> e \<noteq> AssertionFailed
      | Inr None \<Rightarrow> False
      | Inr (Some p) \<Rightarrow> p \<in> set (mOutputParameters (fst st)))
   \<and> (getParameterByContent (mOutputParameters (fst st)) content type = Inr None
        \<and> (index = - 1
             \<or> getParameterBySemantic (mOutputParameters (fst st)) semantic index = None)
      \<longrightarrow> fst (resolveOutputParameter fac semantic index content type st)
            = Inl (ERR_INVALIDPARAMS (ResolveNotImplemented semantic
                (if index = - 1 then nextIndex (mOutputParameters (fst st)) semantic else index)
                (mName (fst st)))))"
  unfolding resolveOutputParameter_def createOutput_blend [OF assms]
  by (auto split: sum.splits option.splits
      dest: getParameterByContent_throws getParameterByContent_Some getParameterBySemantic_Some)

text \<open>
  The output list holds \<open>oColor_0\<close>, the diffuse colour with four components. A request
  for blend indices with that content and type returns \<open>oColor_0\<close>; a request with the
  specular colour at index 2 throws.
\<close>

theorem C4_blend_output_witness:
  "resolveOutputParameter sampleFactory SPS_BLEND_INDICES 2 SPC_COLOR_DIFFUSE GCT_FLOAT4
     (mainFunction\<lparr>mOutputParameters :=
        [parameterAt 0 GCT_FLOAT4 ''oColor_0'' SPS_COLOR 0 SPC_COLOR_DIFFUSE]\<rparr>, 1)
   = (Inr (Some (parameterAt 0 GCT_FLOAT4 ''oColor_0'' SPS_COLOR 0 SPC_COLOR_DIFFUSE)),
      (mainFunction\<lparr>mOutputParameters :=
        [parameterAt 0 GCT_FLOAT4 ''oColor_0'' SPS_COLOR 0 SPC_COLOR_DIFFUSE]\<rparr>, 1))
   \<and> resolveOutputParameter sampleFactory SPS_BLEND_INDICES 2 SPC_COLOR_SPECULAR GCT_FLOAT4
     (mainFunction\<lparr>mOutputParameters :=
        [parameterAt 0 GCT_FLOAT4 ''oColor_0'' SPS_COLOR 0 SPC_COLOR_DIFFUSE]\<rparr>, 1)
   = (Inl (ERR_INVALIDPARAMS (ResolveNotImplemented SPS_BLEND_INDICES 2 ''main'')),
      (mainFunction\<lparr>mOutputParameters :=
        [parameterAt 0 GCT_FLOAT4 ''oColor_0'' SPS_COLOR 0 SPC_COLOR_DIFFUSE]\<rparr>, 1))"
proof -
  have blend: "SPS_BLEND_INDICES = SPS_BLEND_WEIGHTS \<or> SPS_BLEND_INDICES = SPS_BLEND_INDICES"
    by simp
  show ?thesis
    unfolding
      C4_blend_output [OF blend, of sampleFactory 2 SPC_COLOR_DIFFUSE GCT_FLOAT4
        "(mainFunction\<lparr>mOutputParameters :=
          [parameterAt 0 GCT_FLOAT4 ''oColor_0'' SPS_COLOR 0 SPC_COLOR_DIFFUSE]\<rparr>, 1)",
        THEN conjunct1]
      C4_blend_output [OF blend, of sampleFactory 2 SPC_COLOR_SPECULAR GCT_FLOAT4
        "(mainFunction\<lparr>mOutputParameters :=
          [parameterAt 0 GCT_FLOAT4 ''oColor_0'' SPS_COLOR 0 SPC_COLOR_DIFFUSE]\<rparr>, 1)",
        THEN conjunct1]
    by (simp add: mainFunction_def newFunction_def parameterAt_def getParameterByContent_def
        getParameterBySemantic_def)
qed

text \<open>
  The claim that the call always fails is false: the output list holds \<open>oColor_0\<close>
  (registered by \<^verbatim>\<open>addOutputParameter\<close>), and the request for blend weights with its
  content and type returns it.
\<close>

theorem C4_blend_output_counterexample:
  "addOutputParameter mainFunction
     (parameterAt 0 GCT_FLOAT4 ''oColor_0'' SPS_COLOR 0 SPC_COLOR_DIFFUSE)
   = (Inr (), mainFunction\<lparr>mOutputParameters :=
        [parameterAt 0 GCT_FLOAT4 ''oColor_0'' SPS_COLOR 0 SPC_COLOR_DIFFUSE]\<rparr>)
   \<and> resolveOutputParameter sampleFactory SPS_BLEND_WEIGHTS 0 SPC_COLOR_DIFFUSE GCT_FLOAT4
     (mainFunction\<lparr>mOutputParameters :=
        [parameterAt 0 GCT_FLOAT4 ''oColor_0'' SPS_COLOR 0 SPC_COLOR_DIFFUSE]\<rparr>, 1)
   = (Inr (Some (parameterAt 0 GCT_FLOAT4 ''oColor_0'' SPS_COLOR 0 SPC_COLOR_DIFFUSE)),
      (mainFunction\<lparr>mOutputParameters :=
        [parameterAt 0 GCT_FLOAT4 ''oColor_0'' SPS_COLOR 0 SPC_COLOR_DIFFUSE]\<rparr>, 1))"
  by (simp add: resolveOutputParameter_def addOutputParameter_eq
      mainFunction_def newFunction_def parameterAt_def getParameterByContent_def)

subsection \<open>Resolution of input parameters\<close>

lemma nextIndex_foldl:
  "foldl (\<lambda>index p. if getSemantic (snd p) = s then index + 1 else index) k l =
     k + int (length (filter (\<lambda>p. getSemantic (snd p) = s) l))"
  by (induction l arbitrary: k) auto

lemma nextIndex_count:
  "nextIndex l s = int (length (filter (\<lambda>p. getSemantic (snd p) = s) l))"
  by (simp add: nextIndex_def nextIndex_foldl)

lemma find_snoc:
  "find P (xs @ [x]) = (case find P xs of None \<Rightarrow> (if P x then Some x else None) | Some y \<Rightarrow> Some y)"
  by (induction xs) auto

lemma createInput_returns:
  assumes "createInput fac s i c t param st = (Inr (Some p), st')"
  shows "fst st' = (fst st)\<lparr>mInputParameters := mInputParameters (fst st) @ [p]\<rparr>
    \<and> (\<exists>h. inputSwitch fac s t i c param (snd st) = Inr (Some p, h))"
  using assms
  by (auto simp: createInput_def addInputParameter_eq
      split: sum.splits option.splits prod.splits if_splits)

text \<open>A parameter that a call returns is one of the list, or it has been appended.\<close>

lemma resolveInputParameter_returns:
  assumes "resolveInputParameter fac s i c t st = (Inr (Some p), st')"
  shows "(st' = st \<and> p \<in> set (mInputParameters (fst st)))
    \<or> (getParameterByContent (mInputParameters (fst st)) c t = Inr None
        \<and> fst st' = (fst st)\<lparr>mInputParameters := mInputParameters (fst st) @ [p]\<rparr>
        \<and> (\<exists>param h. inputSwitch fac s t
              (if i = - 1 then nextIndex (mInputParameters (fst st)) s else i) c param (snd st)
              = Inr (Some p, h) \<and> (i = - 1 \<longrightarrow> param = None)))"
  using assms
  by (auto simp: resolveInputParameter_def
      split: sum.splits option.splits if_splits
      dest!: createInput_returns getParameterByContent_Some getParameterBySemantic_Some)

lemma resolveInputParameter_found_again:
  assumes "resolveInputParameter fac s i c t st = (Inr (Some p), st')"
    and "c \<noteq> SPC_UNKNOWN"
    and "getContent (snd p) = c"
    and "if t = GCT_UNKNOWN then typeFromContent c = Inr (getType (snd p))
         else getType (snd p) = t"
  shows "getParameterByContent (mInputParameters (fst st')) c t = Inr (Some p)"
proof -
  define t' where "t' = getType (snd p)"
  have eff: "(if t = GCT_UNKNOWN then typeFromContent c else Inr t) = Inr t'"
    using assms(4) by (simp add: t'_def split: if_splits)
  let ?P = "\<lambda>q. getContent (snd q) = c \<and> getType (snd q) = t'"
  have lookup: "getParameterByContent l c t = Inr (find ?P l)" for l
    using eff assms(2) by (simp add: getParameterByContent_def)
  have Pp: "?P p" using assms(3) by (simp add: t'_def)
  from resolveInputParameter_returns [OF assms(1)] show ?thesis
  proof (elim disjE conjE)
    assume same: "st' = st" and mem: "p \<in> set (mInputParameters (fst st))"
    show ?thesis
    proof (cases "find ?P (mInputParameters (fst st))")
      case None
      then have "\<not> ?P p" using mem unfolding find_None_iff by blast
      with Pp show ?thesis by simp
    next
      case (Some q)
      then have "resolveInputParameter fac s i c t st = (Inr (Some q), st)"
        by (simp add: resolveInputParameter_def lookup)
      with assms(1) have "q = p" by simp
      with Some same show ?thesis by (simp add: lookup)
    qed
  next
    assume "getParameterByContent (mInputParameters (fst st)) c t = Inr None"
      and "fst st' = (fst st)\<lparr>mInputParameters := mInputParameters (fst st) @ [p]\<rparr>"
    with Pp show ?thesis by (simp add: lookup find_snoc)
  qed
qed

text \<open>
  C2, as the code has it. When a call of \<^verbatim>\<open>resolveInputParameter\<close> with a content other than
  \<^verbatim>\<open>SPC_UNKNOWN\<close> returns a parameter that has the requested content and the requested type
  (the type derived from the content when \<^verbatim>\<open>GCT_UNKNOWN\<close> was passed), every later call
  with the same content and type returns the same instance and changes nothing, whatever
  its semantic and its index are, \<open>-1\<close> included.
\<close>

theorem C2_same_instance:
  assumes "resolveInputParameter fac s i c t st = (Inr (Some p), st')"
    and "c \<noteq> SPC_UNKNOWN"
    and "getContent (snd p) = c"
    and "if t = GCT_UNKNOWN then typeFromContent c = Inr (getType (snd p))
         else getType (snd p) = t"
  shows "resolveInputs fac (map (\<lambda>(s', i'). (s', i', c, t)) later) st' =
           (map (\<lambda>x. Inr (Some p)) later, st')"
proof -
  have again: "resolveInputParameter fac s' i' c t st' = (Inr (Some p), st')" for s' i'
    using resolveInputParameter_found_again [OF assms]
    by (simp add: resolveInputParameter_def)
  show ?thesis
    by (induction later) (auto simp: again)
qed

lemma toStringInt_small:
  "toStringInt 0 = ''0''" "toStringInt 1 = ''1''" "toStringInt 2 = ''2''"
  by (simp_all add: toStringInt_def toString.simps)

text \<open>
  Texcoords of two components, on a new Function: the content \<open>SPC_OTHER 0\<close> at index
  \<open>-1\<close> creates \<open>iTexcoord_0\<close>, and the same content at index \<open>-1\<close>, at index 5 and with the
  colour semantic returns it.
\<close>

theorem C2_same_instance_witness:
  "resolveInputParameter sampleFactory SPS_TEXTURE_COORDINATES (- 1) (SPC_OTHER 0) GCT_FLOAT2
     (mainFunction, 0)
   = (Inr (Some (parameterAt 0 GCT_FLOAT2 ''iTexcoord_0'' SPS_TEXTURE_COORDINATES 0 (SPC_OTHER 0))),
      (mainFunction\<lparr>mInputParameters :=
         [parameterAt 0 GCT_FLOAT2 ''iTexcoord_0'' SPS_TEXTURE_COORDINATES 0 (SPC_OTHER 0)]\<rparr>, 1))
   \<and> resolveInputs sampleFactory
       [(SPS_TEXTURE_COORDINATES, - 1, SPC_OTHER 0, GCT_FLOAT2),
        (SPS_TEXTURE_COORDINATES, 5, SPC_OTHER 0, GCT_FLOAT2),
        (SPS_COLOR, - 1, SPC_OTHER 0, GCT_FLOAT2)]
       (mainFunction\<lparr>mInputParameters :=
         [parameterAt 0 GCT_FLOAT2 ''iTexcoord_0'' SPS_TEXTURE_COORDINATES 0 (SPC_OTHER 0)]\<rparr>, 1)
   = ([Inr (Some (parameterAt 0 GCT_FLOAT2 ''iTexcoord_0'' SPS_TEXTURE_COORDINATES 0 (SPC_OTHER 0))),
       Inr (Some (parameterAt 0 GCT_FLOAT2 ''iTexcoord_0'' SPS_TEXTURE_COORDINATES 0 (SPC_OTHER 0))),
       Inr (Some (parameterAt 0 GCT_FLOAT2 ''iTexcoord_0'' SPS_TEXTURE_COORDINATES 0 (SPC_OTHER 0)))],
      (mainFunction\<lparr>mInputParameters :=
         [parameterAt 0 GCT_FLOAT2 ''iTexcoord_0'' SPS_TEXTURE_COORDINATES 0 (SPC_OTHER 0)]\<rparr>, 1))"
proof -
  have first:
    "resolveInputParameter sampleFactory SPS_TEXTURE_COORDINATES (- 1) (SPC_OTHER 0) GCT_FLOAT2
       (mainFunction, 0)
     = (Inr (Some (parameterAt 0 GCT_FLOAT2 ''iTexcoord_0'' SPS_TEXTURE_COORDINATES 0 (SPC_OTHER 0))),
        (mainFunction\<lparr>mInputParameters :=
           [parameterAt 0 GCT_FLOAT2 ''iTexcoord_0'' SPS_TEXTURE_COORDINATES 0 (SPC_OTHER 0)]\<rparr>, 1))"
    by (simp add: resolveInputParameter_def createInput_def addInputParameter_eq nextIndex_def
        mainFunction_def newFunction_def parameterAt_def getParameterByContent_def
        sampleFactory_def newParameter_def toStringInt_small)
  show ?thesis
    using C2_same_instance [OF first, of
        "[(SPS_TEXTURE_COORDINATES, - 1), (SPS_TEXTURE_COORDINATES, 5), (SPS_COLOR, - 1)]"]
    by (simp add: first parameterAt_def)
qed

text \<open>
  The claim fails for the content \<^verbatim>\<open>SPC_UNKNOWN\<close>, which the lookup by content never
  matches: two calls for a texcoord at index \<open>-1\<close> return two instances, at the addresses 0
  and 1. It fails for the semantic \<^verbatim>\<open>SPS_UNKNOWN\<close> as well, where the first call creates
  nothing.
\<close>

theorem C2_same_instance_counterexample:
  "resolveInputs sampleFactory
     [(SPS_TEXTURE_COORDINATES, - 1, SPC_UNKNOWN, GCT_FLOAT2),
      (SPS_TEXTURE_COORDINATES, - 1, SPC_UNKNOWN, GCT_FLOAT2)]
     (mainFunction, 0)
   = ([Inr (Some (parameterAt 0 GCT_FLOAT2 ''iTexcoord_0'' SPS_TEXTURE_COORDINATES 0 SPC_UNKNOWN)),
       Inr (Some (parameterAt 1 GCT_FLOAT2 ''iTexcoord_1'' SPS_TEXTURE_COORDINATES 1 SPC_UNKNOWN))],
      (mainFunction\<lparr>mInputParameters :=
         [parameterAt 0 GCT_FLOAT2 ''iTexcoord_0'' SPS_TEXTURE_COORDINATES 0 SPC_UNKNOWN,
          parameterAt 1 GCT_FLOAT2 ''iTexcoord_1'' SPS_TEXTURE_COORDINATES 1 SPC_UNKNOWN]\<rparr>, 2))
   \<and> resolveInputs sampleFactory
     [(SPS_UNKNOWN, - 1, SPC_COLOR_DIFFUSE, GCT_FLOAT4),
      (SPS_UNKNOWN, - 1, SPC_COLOR_DIFFUSE, GCT_FLOAT4)]
     (mainFunction, 0)
   = ([Inr None, Inr None], (mainFunction, 0))"
  by (simp add: resolveInputParameter_def createInput_def addInputParameter_eq nextIndex_def
      mainFunction_def newFunction_def parameterAt_def getParameterByContent_def
      sampleFactory_def newParameter_def toStringInt_small)

lemma resolveInputParameter_new:
  assumes "resolveInputParameter fac s (- 1) c t st = (Inr (Some p), st')"
    and "p \<notin> set (mInputParameters (fst st))"
    and "stampsInput fac s"
  shows "getIndex (snd p) = int (length (filter (\<lambda>q. getSemantic (snd q) = s)
                                    (mInputParameters (fst st))))
    \<and> getSemantic (snd p) = s
    \<and> mInputParameters (fst st') = mInputParameters (fst st) @ [p]"
proof -
  from resolveInputParameter_returns [OF assms(1)] assms(2)
  obtain h where app: "fst st' = (fst st)\<lparr>mInputParameters := mInputParameters (fst st) @ [p]\<rparr>"
    and sw: "inputSwitch fac s t (nextIndex (mInputParameters (fst st)) s) c None (snd st)
               = Inr (Some p, h)"
    by auto
  from assms(3) sw have "getSemantic (snd p) = s
      \<and> getIndex (snd p) = nextIndex (mInputParameters (fst st)) s"
    unfolding stampsInput_def by blast
  with app show ?thesis by (simp add: nextIndex_count)
qed

text \<open>
  Successive calls of \<^verbatim>\<open>resolveInputParameter\<close> with index \<open>-1\<close> for one semantic, each of
  which returns a parameter that was not registered before, give the parameters the
  indices \<open>n, n + 1, n + 2, ...\<close> in the order of the calls, where \<open>n\<close> is the number of
  parameters of that semantic that the input list held before the first call (0 for a
  Function without such parameters): the index of each is the count at its call. The
  parameters are appended in that order. The factory is taken to give each parameter
  the semantic and index it is asked for.
\<close>

lemma resolveInputParameter_sequential_indices:
  assumes "stampsInput fac s"
    and "resolveInputs fac (map (\<lambda>c. (s, - 1, c, t)) cs) st = (map (\<lambda>p. Inr (Some p)) ps, st')"
    and "distinct ps"
    and "set ps \<inter> set (mInputParameters (fst st)) = {}"
  shows "map (\<lambda>p. getIndex (snd p)) ps =
           map int [length (filter (\<lambda>q. getSemantic (snd q) = s) (mInputParameters (fst st)))
                    ..< length (filter (\<lambda>q. getSemantic (snd q) = s) (mInputParameters (fst st)))
                        + length cs]
    \<and> mInputParameters (fst st') = mInputParameters (fst st) @ ps"
  using assms(2-4)
proof (induction cs arbitrary: st ps)
  case Nil
  then show ?case by simp
next
  case (Cons c cs)
  let ?r = "resolveInputParameter fac s (- 1) c t st"
  from Cons.prems(1) obtain p ps' where ps: "ps = p # ps'"
    and first: "fst ?r = Inr (Some p)"
    and rest: "resolveInputs fac (map (\<lambda>c. (s, - 1, c, t)) cs) (snd ?r)
                 = (map (\<lambda>p. Inr (Some p)) ps', st')"
    by (cases ps) (auto simp: prod_eq_iff)
  from first have call: "?r = (Inr (Some p), snd ?r)"
    by (simp add: prod_eq_iff)
  from Cons.prems(3) ps have fresh: "p \<notin> set (mInputParameters (fst st))"
    by auto
  note new = resolveInputParameter_new [OF call fresh assms(1)]
  let ?n = "length (filter (\<lambda>q. getSemantic (snd q) = s) (mInputParameters (fst st)))"
  have count: "length (filter (\<lambda>q. getSemantic (snd q) = s) (mInputParameters (fst (snd ?r))))
                 = Suc ?n"
    using new by simp
  have "distinct ps'" and "set ps' \<inter> set (mInputParameters (fst (snd ?r))) = {}"
    using Cons.prems(2,3) ps new by auto
  from Cons.IH [OF rest this]
  have ih: "map (\<lambda>p. getIndex (snd p)) ps' = map int [Suc ?n ..< Suc ?n + length cs]"
    and app: "mInputParameters (fst st') = mInputParameters (fst (snd ?r)) @ ps'"
    by (simp_all add: count)
  have "[?n ..< ?n + length (c # cs)] = ?n # [Suc ?n ..< Suc ?n + length cs]"
    by (simp add: upt_rec)
  with ih app new ps show ?case by simp
qed

lemma stampsInput_sampleFactory: "stampsInput sampleFactory s"
  unfolding stampsInput_def
  by (cases s) (auto simp: sampleFactory_def newParameter_def split: if_splits)

text \<open>
  On a new Function, three texcoords of two components with the contents \<open>SPC_OTHER 0\<close>,
  \<open>SPC_OTHER 1\<close> and \<^verbatim>\<open>SPC_UNKNOWN\<close> get the indices 0, 1 and 2.
\<close>

lemma resolveInputParameter_sequential_indices_example:
  "resolveInputs sampleFactory
     [(SPS_TEXTURE_COORDINATES, - 1, SPC_OTHER 0, GCT_FLOAT2),
      (SPS_TEXTURE_COORDINATES, - 1, SPC_OTHER 1, GCT_FLOAT2),
      (SPS_TEXTURE_COORDINATES, - 1, SPC_UNKNOWN, GCT_FLOAT2)]
     (mainFunction, 0)
   = ([Inr (Some (parameterAt 0 GCT_FLOAT2 ''iTexcoord_0'' SPS_TEXTURE_COORDINATES 0 (SPC_OTHER 0))),
       Inr (Some (parameterAt 1 GCT_FLOAT2 ''iTexcoord_1'' SPS_TEXTURE_COORDINATES 1 (SPC_OTHER 1))),
       Inr (Some (parameterAt 2 GCT_FLOAT2 ''iTexcoord_2'' SPS_TEXTURE_COORDINATES 2 SPC_UNKNOWN))],
      (mainFunction\<lparr>mInputParameters :=
         [parameterAt 0 GCT_FLOAT2 ''iTexcoord_0'' SPS_TEXTURE_COORDINATES 0 (SPC_OTHER 0),
          parameterAt 1 GCT_FLOAT2 ''iTexcoord_1'' SPS_TEXTURE_COORDINATES 1 (SPC_OTHER 1),
          parameterAt 2 GCT_FLOAT2 ''iTexcoord_2'' SPS_TEXTURE_COORDINATES 2 SPC_UNKNOWN]\<rparr>, 3))
   \<and> map (\<lambda>p. getIndex (snd p))
       [parameterAt 0 GCT_FLOAT2 ''iTexcoord_0'' SPS_TEXTURE_COORDINATES 0 (SPC_OTHER 0),
        parameterAt 1 GCT_FLOAT2 ''iTexcoord_1'' SPS_TEXTURE_COORDINATES 1 (SPC_OTHER 1),
        parameterAt 2 GCT_FLOAT2 ''iTexcoord_2'' SPS_TEXTURE_COORDINATES 2 SPC_UNKNOWN]
     = [0, 1, 2]"
proof -
  have calls:
    "resolveInputs sampleFactory
       [(SPS_TEXTURE_COORDINATES, - 1, SPC_OTHER 0, GCT_FLOAT2),
        (SPS_TEXTURE_COORDINATES, - 1, SPC_OTHER 1, GCT_FLOAT2),
        (SPS_TEXTURE_COORDINATES, - 1, SPC_UNKNOWN, GCT_FLOAT2)]
       (mainFunction, 0)
     = ([Inr (Some (parameterAt 0 GCT_FLOAT2 ''iTexcoord_0'' SPS_TEXTURE_COORDINATES 0 (SPC_OTHER 0))),
         Inr (Some (parameterAt 1 GCT_FLOAT2 ''iTexcoord_1'' SPS_TEXTURE_COORDINATES 1 (SPC_OTHER 1))),
         Inr (Some (parameterAt 2 GCT_FLOAT2 ''iTexcoord_2'' SPS_TEXTURE_COORDINATES 2 SPC_UNKNOWN))],
        (mainFunction\<lparr>mInputParameters :=
           [parameterAt 0 GCT_FLOAT2 ''iTexcoord_0'' SPS_TEXTURE_COORDINATES 0 (SPC_OTHER 0),
            parameterAt 1 GCT_FLOAT2 ''iTexcoord_1'' SPS_TEXTURE_COORDINATES 1 (SPC_OTHER 1),
            parameterAt 2 GCT_FLOAT2 ''iTexcoord_2'' SPS_TEXTURE_COORDINATES 2 SPC_UNKNOWN]\<rparr>, 3))"
    by (simp add: resolveInputParameter_def createInput_def addInputParameter_eq nextIndex_def
        mainFunction_def newFunction_def parameterAt_def getParameterByContent_def
        sampleFactory_def newParameter_def toStringInt_small numeral_3_eq_3)
  then have mapped:
    "resolveInputs sampleFactory
       (map (\<lambda>c. (SPS_TEXTURE_COORDINATES, - 1, c, GCT_FLOAT2))
          [SPC_OTHER 0, SPC_OTHER 1, SPC_UNKNOWN])
       (mainFunction, 0)
     = (map (\<lambda>p. Inr (Some p))
         [parameterAt 0 GCT_FLOAT2 ''iTexcoord_0'' SPS_TEXTURE_COORDINATES 0 (SPC_OTHER 0),
          parameterAt 1 GCT_FLOAT2 ''iTexcoord_1'' SPS_TEXTURE_COORDINATES 1 (SPC_OTHER 1),
          parameterAt 2 GCT_FLOAT2 ''iTexcoord_2'' SPS_TEXTURE_COORDINATES 2 SPC_UNKNOWN],
        (mainFunction\<lparr>mInputParameters :=
           [parameterAt 0 GCT_FLOAT2 ''iTexcoord_0'' SPS_TEXTURE_COORDINATES 0 (SPC_OTHER 0),
            parameterAt 1 GCT_FLOAT2 ''iTexcoord_1'' SPS_TEXTURE_COORDINATES 1 (SPC_OTHER 1),
            parameterAt 2 GCT_FLOAT2 ''iTexcoord_2'' SPS_TEXTURE_COORDINATES 2 SPC_UNKNOWN]\<rparr>, 3))"
    by simp
  have new: "distinct
      [parameterAt 0 GCT_FLOAT2 ''iTexcoord_0'' SPS_TEXTURE_COORDINATES 0 (SPC_OTHER 0),
       parameterAt 1 GCT_FLOAT2 ''iTexcoord_1'' SPS_TEXTURE_COORDINATES 1 (SPC_OTHER 1),
       parameterAt 2 GCT_FLOAT2 ''iTexcoord_2'' SPS_TEXTURE_COORDINATES 2 SPC_UNKNOWN]"
    by (simp add: parameterAt_def)
  have none: "set
      [parameterAt 0 GCT_FLOAT2 ''iTexcoord_0'' SPS_TEXTURE_COORDINATES 0 (SPC_OTHER 0),
       parameterAt 1 GCT_FLOAT2 ''iTexcoord_1'' SPS_TEXTURE_COORDINATES 1 (SPC_OTHER 1),
       parameterAt 2 GCT_FLOAT2 ''iTexcoord_2'' SPS_TEXTURE_COORDINATES 2 SPC_UNKNOWN]
      \<inter> set (mInputParameters (fst (mainFunction, 0::nat))) = {}"
    by (simp add: mainFunction_def newFunction_def)
  have indices: "map (\<lambda>p. getIndex (snd p))
       [parameterAt 0 GCT_FLOAT2 ''iTexcoord_0'' SPS_TEXTURE_COORDINATES 0 (SPC_OTHER 0),
        parameterAt 1 GCT_FLOAT2 ''iTexcoord_1'' SPS_TEXTURE_COORDINATES 1 (SPC_OTHER 1),
        parameterAt 2 GCT_FLOAT2 ''iTexcoord_2'' SPS_TEXTURE_COORDINATES 2 SPC_UNKNOWN]
     = [0, 1, 2]"
    using resolveInputParameter_sequential_indices [OF stampsInput_sampleFactory mapped new none]
    by (simp add: mainFunction_def newFunction_def parameterAt_def numeral_3_eq_3)
  from calls indices show ?thesis by (rule conjI)
qed


subsection \<open>Local parameters\<close>

lemma createInput_locals:
  "mLocalParameters (fst (snd (createInput fac s i c t param st))) = mLocalParameters (fst st)"
  by (simp add: createInput_def addInputParameter_eq
      split: sum.splits option.splits prod.splits)

lemma createOutput_locals:
  "mLocalParameters (fst (snd (createOutput fac s i c t param st))) = mLocalParameters (fst st)"
  by (simp add: createOutput_def addOutputParameter_eq
      split: sum.splits option.splits prod.splits)

lemma resolveInputParameter_locals:
  "mLocalParameters (fst (snd (resolveInputParameter fac s i c t st)))
     = mLocalParameters (fst st)"
  by (simp add: resolveInputParameter_def createInput_locals
      split: sum.splits option.splits)

lemma resolveOutputParameter_locals:
  "mLocalParameters (fst (snd (resolveOutputParameter fac s i c t st)))
     = mLocalParameters (fst st)"
  by (simp add: resolveOutputParameter_def createOutput_locals
      split: sum.splits option.splits)

lemma resolveLocalParameterByName_locals:
  "prefix (mLocalParameters (fst st))
     (mLocalParameters (fst (snd (resolveLocalParameterByName s i n t st))))"
  by (simp add: resolveLocalParameterByName_def addParameter_eq Let_def
      split: option.splits)

lemma resolveLocalParameter_locals:
  "prefix (mLocalParameters (fst st))
     (mLocalParameters (fst (snd (resolveLocalParameter s i c t st))))"
  by (simp add: resolveLocalParameter_def addParameter_eq Let_def
      split: sum.splits option.splits)

lemma call_locals:
  "prefix (mLocalParameters (fst st)) (mLocalParameters (fst (call fac c st)))"
proof (cases c)
  case (ResolveInputParameter s i c t)
  then show ?thesis by (simp add: resolveInputParameter_locals)
next
  case (ResolveOutputParameter s i c t)
  then show ?thesis by (simp add: resolveOutputParameter_locals)
next
  case (ResolveLocalParameterByName s i n t)
  then show ?thesis by (simp add: resolveLocalParameterByName_locals)
next
  case (ResolveLocalParameter s i c t)
  then show ?thesis by (simp add: resolveLocalParameter_locals)
next
  case (AddInputParameter p)
  then show ?thesis by (simp add: addInputParameter_eq)
next
  case (AddOutputParameter p)
  then show ?thesis by (simp add: addOutputParameter_eq)
next
  case (DeleteAtomInstance a)
  then show ?thesis by (simp add: deleteAtomInstance_def Let_def)
next
  case GetAtomInstances
  then show ?thesis by (simp add: getAtomInstances_def Let_def)
qed (simp_all add: deleteInputParameter_def deleteOutputParameter_def
    deleteAllInputParameters_def deleteAllOutputParameters_def addAtomInstance_def
    addAtomAssign_def)

lemma run_locals:
  "prefix (mLocalParameters (fst st)) (mLocalParameters (fst (run fac calls st)))"
proof (induction calls arbitrary: st)
  case Nil
  show ?case by simp
next
  case (Cons c calls)
  from call_locals [of st fac c] Cons [of "call fac c st"] show ?case
    by (auto intro: prefix_order.trans)
qed

lemma resolveLocalParameter_creates:
  assumes "(if t = GCT_UNKNOWN then typeFromContent c else Inr t) = Inr t'"
    and "getParameterByContent (mLocalParameters f) c t' = Inr None"
  shows "resolveLocalParameter s i c t (f, h) =
      (if \<exists>q\<in>set (mInputParameters f) \<union> set (mOutputParameters f).
            getName (snd q) = ''lLocalParam_'' @ toString (length (mLocalParameters f))
       then (Inl (ERR_INVALIDPARAMS (AlreadyDeclared
                    (''lLocalParam_'' @ toString (length (mLocalParameters f))) (mName f))),
             (f, Suc h))
       else (Inr (Some (h, \<lparr> getType = t',
                    getName = ''lLocalParam_'' @ toString (length (mLocalParameters f)),
                    getSemantic = s, getIndex = i, getContent = c \<rparr>)),
             (f\<lparr>mLocalParameters := mLocalParameters f @
                   [(h, \<lparr> getType = t',
                      getName = ''lLocalParam_'' @ toString (length (mLocalParameters f)),
                      getSemantic = s, getIndex = i, getContent = c \<rparr>)]\<rparr>,
              Suc h)))"
  using assms by (simp add: resolveLocalParameter_def addParameter_eq Let_def)

lemma digit_inj:
  assumes "a < 10" "b < 10" "''0123456789'' ! a = ''0123456789'' ! b"
  shows "a = b"
proof -
  have "distinct ''0123456789''" by simp
  moreover have "length ''0123456789'' = 10" by simp
  ultimately show ?thesis
    using assms by (simp only: nth_eq_iff_index_eq)
qed

lemma toString_nonempty: "toString n \<noteq> []"
  by (subst toString.simps) simp

lemma toString_inj: "toString n = toString m \<Longrightarrow> n = m"
proof (induction n arbitrary: m rule: toString.induct)
  case (1 n)
  show ?case
  proof (cases "n < 10")
    case small: True
    show ?thesis
    proof (cases "m < 10")
      case True
      with small "1.prems" show ?thesis
        by (auto simp: toString.simps [of n] toString.simps [of m] intro: digit_inj)
    next
      case False
      with small "1.prems" toString_nonempty [of "m div 10"] show ?thesis
        by (auto simp: toString.simps [of n] toString.simps [of m])
    qed
  next
    case large: False
    show ?thesis
    proof (cases "m < 10")
      case True
      with large "1.prems" toString_nonempty [of "n div 10"] show ?thesis
        by (auto simp: toString.simps [of n] toString.simps [of m])
    next
      case False
      with large "1.prems" have "toString (n div 10) = toString (m div 10)"
        and "''0123456789'' ! (n mod 10) = ''0123456789'' ! (m mod 10)"
        by (auto simp: toString.simps [of n] toString.simps [of m])
      with "1.IH" [OF large] have "n div 10 = m div 10" and "n mod 10 = m mod 10"
        by (auto intro: digit_inj)
      then show ?thesis by (metis div_mult_mod_eq)
    qed
  qed
qed

text \<open>
  C8. When \<^verbatim>\<open>resolveLocalParameter\<close> by content finds no local parameter with the content
  and the type (the requested type, or the type derived from the content), it constructs
  a parameter named \<open>lLocalParam_\<close> followed by the number of local parameters, in
  decimal, and appends it to the local list (the registration throws if an input or
  output parameter has that name already). No sequence of calls of the class, deletions
  included, removes a local parameter: the local list only grows at its end, so the
  number never decreases, and after a parameter was appended at \<open>n\<close> it stays above \<open>n\<close>.
  Different numbers give different names.
\<close>

theorem C8_local_names:
  assumes "(if t = GCT_UNKNOWN then typeFromContent c else Inr t) = Inr t'"
    and "getParameterByContent (mLocalParameters f) c t' = Inr None"
  shows "resolveLocalParameter s i c t (f, h) =
      (if \<exists>q\<in>set (mInputParameters f) \<union> set (mOutputParameters f).
            getName (snd q) = ''lLocalParam_'' @ toString (length (mLocalParameters f))
       then (Inl (ERR_INVALIDPARAMS (AlreadyDeclared
                    (''lLocalParam_'' @ toString (length (mLocalParameters f))) (mName f))),
             (f, Suc h))
       else (Inr (Some (h, \<lparr> getType = t',
                    getName = ''lLocalParam_'' @ toString (length (mLocalParameters f)),
                    getSemantic = s, getIndex = i, getContent = c \<rparr>)),
             (f\<lparr>mLocalParameters := mLocalParameters f @
                   [(h, \<lparr> getType = t',
                      getName = ''lLocalParam_'' @ toString (length (mLocalParameters f)),
                      getSemantic = s, getIndex = i, getContent = c \<rparr>)]\<rparr>,
              Suc h)))
    \<and> prefix (mLocalParameters (fst (snd (resolveLocalParameter s i c t (f, h)))))
         (mLocalParameters (fst (run fac calls (snd (resolveLocalParameter s i c t (f, h))))))
    \<and> length (mLocalParameters f)
         \<le> length (mLocalParameters (fst (run fac calls (f, h))))
    \<and> ((''lLocalParam_'' @ toString n = ''lLocalParam_'' @ toString m) = (n = m))"
  using resolveLocalParameter_creates [OF assms, of s i h]
    run_locals [of "snd (resolveLocalParameter s i c t (f, h))" fac calls]
    run_locals [of "(f, h)" fac calls]
  by (auto dest: prefix_length_le toString_inj)

lemma toString_small: "toString 0 = ''0''" "toString (Suc 0) = ''1''"
  by (simp_all add: toString.simps)

text \<open>
  On a new Function the diffuse colour with unknown type becomes \<open>lLocalParam_0\<close> with
  four components; then the world space normal becomes \<open>lLocalParam_1\<close> with three. Calls
  that delete parameters in between do not change the local list.
\<close>

theorem C8_local_names_witness:
  "resolveLocalParameter SPS_UNKNOWN 0 SPC_COLOR_DIFFUSE GCT_UNKNOWN (mainFunction, 0)
   = (Inr (Some (parameterAt 0 GCT_FLOAT4 ''lLocalParam_0'' SPS_UNKNOWN 0 SPC_COLOR_DIFFUSE)),
      (mainFunction\<lparr>mLocalParameters :=
         [parameterAt 0 GCT_FLOAT4 ''lLocalParam_0'' SPS_UNKNOWN 0 SPC_COLOR_DIFFUSE]\<rparr>, 1))
   \<and> resolveLocalParameter SPS_UNKNOWN 0 SPC_NORMAL_WORLD_SPACE GCT_UNKNOWN
      (mainFunction\<lparr>mLocalParameters :=
         [parameterAt 0 GCT_FLOAT4 ''lLocalParam_0'' SPS_UNKNOWN 0 SPC_COLOR_DIFFUSE]\<rparr>, 1)
   = (Inr (Some (parameterAt 1 GCT_FLOAT3 ''lLocalParam_1'' SPS_UNKNOWN 0 SPC_NORMAL_WORLD_SPACE)),
      (mainFunction\<lparr>mLocalParameters :=
         [parameterAt 0 GCT_FLOAT4 ''lLocalParam_0'' SPS_UNKNOWN 0 SPC_COLOR_DIFFUSE,
          parameterAt 1 GCT_FLOAT3 ''lLocalParam_1'' SPS_UNKNOWN 0 SPC_NORMAL_WORLD_SPACE]\<rparr>, 2))
   \<and> prefix [parameterAt 0 GCT_FLOAT4 ''lLocalParam_0'' SPS_UNKNOWN 0 SPC_COLOR_DIFFUSE]
       (mLocalParameters (fst (run sampleFactory
          [DeleteInputParameter
             (Some (parameterAt 0 GCT_FLOAT4 ''lLocalParam_0'' SPS_UNKNOWN 0 SPC_COLOR_DIFFUSE)),
           DeleteAllInputParameters, DeleteAllOutputParameters]
          (mainFunction\<lparr>mLocalParameters :=
             [parameterAt 0 GCT_FLOAT4 ''lLocalParam_0'' SPS_UNKNOWN 0 SPC_COLOR_DIFFUSE]\<rparr>, 1))))"
proof -
  have d1: "(if GCT_UNKNOWN = GCT_UNKNOWN then typeFromContent SPC_COLOR_DIFFUSE
             else Inr GCT_UNKNOWN) = Inr GCT_FLOAT4"
    by simp
  have m1: "getParameterByContent (mLocalParameters mainFunction) SPC_COLOR_DIFFUSE GCT_FLOAT4
              = Inr None"
    by (simp add: mainFunction_def newFunction_def getParameterByContent_def)
  have d2: "(if GCT_UNKNOWN = GCT_UNKNOWN then typeFromContent SPC_NORMAL_WORLD_SPACE
             else Inr GCT_UNKNOWN) = Inr GCT_FLOAT3"
    by simp
  have m2: "getParameterByContent
              (mLocalParameters (mainFunction\<lparr>mLocalParameters :=
                 [parameterAt 0 GCT_FLOAT4 ''lLocalParam_0'' SPS_UNKNOWN 0 SPC_COLOR_DIFFUSE]\<rparr>))
              SPC_NORMAL_WORLD_SPACE GCT_FLOAT3 = Inr None"
    by (simp add: parameterAt_def getParameterByContent_def)
  show ?thesis
    using
      C8_local_names [OF d1 m1, of SPS_UNKNOWN 0 0 sampleFactory
        "[DeleteInputParameter
            (Some (parameterAt 0 GCT_FLOAT4 ''lLocalParam_0'' SPS_UNKNOWN 0 SPC_COLOR_DIFFUSE)),
          DeleteAllInputParameters, DeleteAllOutputParameters]" 0 1]
      C8_local_names [OF d2 m2, of SPS_UNKNOWN 0 1 sampleFactory "[]" 1 1]
    by (simp add: mainFunction_def newFunction_def parameterAt_def toString_small
        deleteInputParameter_def deleteAllInputParameters_def deleteAllOutputParameters_def)
qed

subsection \<open>The map of atom buckets\<close>

lemma map_of_mapStore: "map_of (mapStore g v m) = (map_of m)(g \<mapsto> v)"
  by (induction m) (auto simp: fun_eq_iff)

lemma mapIndex_mapStore:
  "mapIndex (mapStore g v m) k = (if k = g then v else mapIndex m k)"
  by (simp add: mapIndex_def map_of_mapStore)

lemma set_keys_mapStore: "fst ` set (mapStore g v m) = insert g (fst ` set m)"
  by (induction g v m rule: mapStore.induct) (simp_all add: insert_commute)

lemma sorted_mapStore:
  "sorted_wrt (<) (map fst m) \<Longrightarrow> sorted_wrt (<) (map fst (mapStore g v m))"
proof (induction m)
  case Nil
  show ?case by simp
next
  case (Cons kw m)
  obtain k w where kw: "kw = (k, w)" by (cases kw)
  with Cons show ?case
    using set_keys_mapStore [of g v m] by (auto simp: kw)
qed

lemma mapIndex_mapTouch: "mapIndex (mapTouch g m) k = mapIndex m k"
  by (simp add: mapTouch_def mapIndex_mapStore)

lemma sorted_mapTouch:
  "sorted_wrt (<) (map fst m) \<Longrightarrow> sorted_wrt (<) (map fst (mapTouch g m))"
  by (simp add: mapTouch_def sorted_mapStore)

lemma mapIndex_Cons:
  "mapIndex ((k, b) # m) g = (if g = k then b else mapIndex m g)"
  by (simp add: mapIndex_def)

lemma mapIndex_absent: "g \<notin> fst ` set m \<Longrightarrow> mapIndex m g = []"
  by (simp add: mapIndex_def map_of_eq_None_iff [THEN iffD2])

text \<open>
  Flattening a map whose keys ascend and whose buckets are the groups of a list \<open>reg\<close>
  sorts \<open>reg\<close> by the key, stably.
\<close>

lemma flatten_filter:
  assumes "sorted_wrt (<) (map fst m)"
    and "\<forall>g. \<forall>a\<in>set (mapIndex m g). key a = g"
  shows "filter (\<lambda>a. key a = g) (concat (map snd m)) = mapIndex m g"
  using assms
proof (induction m)
  case Nil
  show ?case by (simp add: mapIndex_def)
next
  case (Cons kb m)
  obtain k b where kb: "kb = (k, b)" by (cases kb)
  from Cons.prems(1) kb have sorted: "sorted_wrt (<) (map fst m)"
    and above: "\<forall>k'\<in>fst ` set m. k < k'"
    by auto
  from above have absent: "mapIndex m k = []"
    by (intro mapIndex_absent) auto
  have head: "\<forall>a\<in>set b. key a = k"
    using Cons.prems(2) [rule_format, of _ k] by (simp add: kb mapIndex_Cons)
  have tail: "\<forall>g. \<forall>a\<in>set (mapIndex m g). key a = g"
  proof (intro allI ballI)
    fix g a assume a: "a \<in> set (mapIndex m g)"
    then have "g \<noteq> k" using absent by auto
    with a Cons.prems(2) [rule_format, of a g] show "key a = g"
      by (simp add: kb mapIndex_Cons)
  qed
  have "filter (\<lambda>a. key a = g) b = (if g = k then b else [])"
    using head by (auto simp: filter_empty_conv)
  with Cons.IH [OF sorted tail] absent show ?case
    by (simp add: kb mapIndex_Cons)
qed

lemma flatten_sorted:
  assumes "sorted_wrt (<) (map fst m)"
    and "\<forall>g. \<forall>a\<in>set (mapIndex m g). key a = g"
  shows "sorted (map key (concat (map snd m)))"
  using assms
proof (induction m)
  case Nil
  show ?case by simp
next
  case (Cons kb m)
  obtain k b where kb: "kb = (k, b)" by (cases kb)
  from Cons.prems(1) kb have sorted: "sorted_wrt (<) (map fst m)"
    and above: "\<forall>k'\<in>fst ` set m. k < k'"
    by auto
  from above have absent: "mapIndex m k = []"
    by (intro mapIndex_absent) auto
  have head: "\<forall>a\<in>set b. key a = k"
    using Cons.prems(2) [rule_format, of _ k] by (simp add: kb mapIndex_Cons)
  have tail: "\<forall>g. \<forall>a\<in>set (mapIndex m g). key a = g"
  proof (intro allI ballI)
    fix g a assume a: "a \<in> set (mapIndex m g)"
    then have "g \<noteq> k" using absent by auto
    with a Cons.prems(2) [rule_format, of a g] show "key a = g"
      by (simp add: kb mapIndex_Cons)
  qed
  have later: "k < key a" if "a \<in> set (concat (map snd m))" for a
  proof -
    from that obtain k' b' where in_m: "(k', b') \<in> set m" and in_b: "a \<in> set b'"
      by auto
    from sorted in_m have "map_of m k' = Some b'"
      by (intro map_of_is_SomeI) (auto simp: strict_sorted_iff dest: sorted_wrt_nth_less)
    then have "mapIndex m k' = b'" by (simp add: mapIndex_def)
    with tail in_b have "key a = k'" by auto
    with above in_m show ?thesis by force
  qed
  have "sorted (map key b)"
    using head by (induction b) auto
  with Cons.IH [OF sorted tail] head later show ?case
    by (auto simp: kb sorted_append dest: less_imp_le)
qed

lemma mset_eq_by_groups:
  assumes "\<And>g. filter (\<lambda>a. key a = g) xs = filter (\<lambda>a. key a = g) ys"
  shows "mset xs = mset ys"
proof (rule multiset_eqI)
  fix x
  have "count (mset xs) x = count (mset (filter (\<lambda>a. key a = key x) xs)) x"
    by simp
  also have "\<dots> = count (mset (filter (\<lambda>a. key a = key x) ys)) x"
    by (simp only: assms)
  also have "\<dots> = count (mset ys) x"
    by simp
  finally show "count (mset xs) x = count (mset ys) x" .
qed

lemma flatten_sort_key:
  assumes "sorted_wrt (<) (map fst m)"
    and "\<forall>g. mapIndex m g = filter (\<lambda>a. key a = g) reg"
  shows "concat (map snd m) = sort_key key reg"
proof -
  have groups: "\<forall>g. \<forall>a\<in>set (mapIndex m g). key a = g"
    using assms(2) by simp
  have filters: "filter (\<lambda>a. key a = g) (concat (map snd m)) = filter (\<lambda>a. key a = g) reg" for g
    using flatten_filter [OF assms(1) groups] assms(2) by simp
  have "sort_key key reg = concat (map snd m)"
  proof (rule properties_for_sort_key)
    show "mset (concat (map snd m)) = mset reg"
      using filters by (rule mset_eq_by_groups)
    show "sorted (map key (concat (map snd m)))"
      using flatten_sorted [OF assms(1) groups] .
    fix k assume "k \<in> set (concat (map snd m))"
    have "(\<lambda>x. key k = key x) = (\<lambda>a. key a = key k)" by auto
    then show "filter (\<lambda>x. key k = key x) (concat (map snd m)) = filter (\<lambda>x. key k = key x) reg"
      using filters [of "key k"] by simp
  qed
  then show ?thesis by simp
qed

subsection \<open>Atoms: the calls keep the containers consistent\<close>

lemma flatten_foldl: "foldl (\<lambda>acc b. acc @ snd b) acc m = acc @ concat (map snd m)"
  by (induction m arbitrary: acc) auto

lemma getAtomInstances_consistent:
  assumes "atomsConsistent f reg"
  shows "fst (getAtomInstances f) = sort_key atomKey reg"
    and "atomsConsistent (snd (getAtomInstances f)) reg"
proof -
  have flat: "concat (map snd (mAtomInstances f)) = sort_key atomKey reg"
    using assms by (intro flatten_sort_key) (auto simp: atomsConsistent_def)
  with assms show "fst (getAtomInstances f) = sort_key atomKey reg"
    by (auto simp: getAtomInstances_def atomsConsistent_def flatten_foldl Let_def)
  from assms show "atomsConsistent (snd (getAtomInstances f)) reg"
    by (auto simp: getAtomInstances_def atomsConsistent_def flatten_foldl Let_def)
qed

lemma addAtomInstance_consistent:
  assumes "atomsConsistent f reg"
  shows "atomsConsistent (addAtomInstance f a) (reg @ [a])"
  using assms
  by (auto simp: atomsConsistent_def addAtomInstance_def sorted_mapStore mapIndex_mapStore)

lemma eraseAtom_unregister:
  "fst (eraseAtom (filter (\<lambda>x. atomKey x = atomKey a) reg) a)
     = filter (\<lambda>x. atomKey x = atomKey a) (unregister reg a)"
  by (induction reg) auto

lemma unregister_other_group:
  "g \<noteq> atomKey a \<Longrightarrow>
     filter (\<lambda>x. atomKey x = g) (unregister reg a) = filter (\<lambda>x. atomKey x = g) reg"
  by (induction reg) auto

lemma eraseAtom_not_found: "\<not> snd (eraseAtom b a) \<Longrightarrow> fst (eraseAtom b a) = b"
  by (induction b) (auto split: if_splits)

lemma deleteAtomInstance_consistent:
  assumes "atomsConsistent f reg"
  shows "atomsConsistent (snd (deleteAtomInstance f a)) (unregister reg a)"
proof -
  let ?g = "atomKey a"
  let ?m = "mapTouch ?g (mAtomInstances f)"
  let ?r = "eraseAtom (mapIndex ?m ?g) a"
  from assms have sorted: "sorted_wrt (<) (map fst ?m)"
    and buckets: "\<forall>g. mapIndex ?m g = filter (\<lambda>x. atomKey x = g) reg"
    by (simp_all add: atomsConsistent_def sorted_mapTouch mapIndex_mapTouch)
  have erased: "fst ?r = filter (\<lambda>x. atomKey x = ?g) (unregister reg a)"
    using buckets eraseAtom_unregister [of a reg] by simp
  have after: "\<forall>g. mapIndex (mapStore ?g (fst ?r) ?m) g
                 = filter (\<lambda>x. atomKey x = g) (unregister reg a)"
    using buckets erased by (simp add: mapIndex_mapStore unregister_other_group)
  show ?thesis
  proof (cases "snd ?r")
    case True
    with sorted after show ?thesis
      by (simp add: deleteAtomInstance_def atomsConsistent_def Let_def sorted_mapStore)
  next
    case False
    then have same: "fst ?r = mapIndex ?m ?g"
      by (rule eraseAtom_not_found)
    have kept: "\<forall>g. mapIndex ?m g = filter (\<lambda>x. atomKey x = g) (unregister reg a)"
    proof
      fix g
      show "mapIndex ?m g = filter (\<lambda>x. atomKey x = g) (unregister reg a)"
        using after [rule_format, of g] same by (simp add: mapIndex_mapStore split: if_splits)
    qed
    have "concat (map snd ?m) = sort_key atomKey reg"
      using sorted buckets by (rule flatten_sort_key)
    moreover have "concat (map snd (mAtomInstances f)) = sort_key atomKey reg"
      using assms by (intro flatten_sort_key) (auto simp: atomsConsistent_def)
    ultimately have "mSortedAtomInstances f = [] \<or> mSortedAtomInstances f = concat (map snd ?m)"
      using assms by (auto simp: atomsConsistent_def)
    with False sorted kept show ?thesis
      by (simp add: deleteAtomInstance_def atomsConsistent_def Let_def)
  qed
qed

lemma atomsConsistent_cong:
  "mAtomInstances f' = mAtomInstances f \<Longrightarrow> mSortedAtomInstances f' = mSortedAtomInstances f
     \<Longrightarrow> atomsConsistent f' reg = atomsConsistent f reg"
  by (simp add: atomsConsistent_def)

lemma createInput_atoms:
  "mAtomInstances (fst (snd (createInput fac s i c t param st))) = mAtomInstances (fst st)
   \<and> mSortedAtomInstances (fst (snd (createInput fac s i c t param st)))
       = mSortedAtomInstances (fst st)"
  by (simp add: createInput_def addInputParameter_eq
      split: sum.splits option.splits prod.splits)

lemma createOutput_atoms:
  "mAtomInstances (fst (snd (createOutput fac s i c t param st))) = mAtomInstances (fst st)
   \<and> mSortedAtomInstances (fst (snd (createOutput fac s i c t param st)))
       = mSortedAtomInstances (fst st)"
  by (simp add: createOutput_def addOutputParameter_eq
      split: sum.splits option.splits prod.splits)

lemma resolveInputParameter_atoms:
  "mAtomInstances (fst (snd (resolveInputParameter fac s i c t st))) = mAtomInstances (fst st)
   \<and> mSortedAtomInstances (fst (snd (resolveInputParameter fac s i c t st)))
       = mSortedAtomInstances (fst st)"
  by (simp add: resolveInputParameter_def createInput_atoms
      split: sum.splits option.splits)

lemma resolveOutputParameter_atoms:
  "mAtomInstances (fst (snd (resolveOutputParameter fac s i c t st))) = mAtomInstances (fst st)
   \<and> mSortedAtomInstances (fst (snd (resolveOutputParameter fac s i c t st)))
       = mSortedAtomInstances (fst st)"
  by (simp add: resolveOutputParameter_def createOutput_atoms
      split: sum.splits option.splits)

lemma resolveLocalParameterByName_atoms:
  "mAtomInstances (fst (snd (resolveLocalParameterByName s i n t st))) = mAtomInstances (fst st)
   \<and> mSortedAtomInstances (fst (snd (resolveLocalParameterByName s i n t st)))
       = mSortedAtomInstances (fst st)"
  by (simp add: resolveLocalParameterByName_def addParameter_eq Let_def
      split: option.splits)

lemma resolveLocalParameter_atoms:
  "mAtomInstances (fst (snd (resolveLocalParameter s i c t st))) = mAtomInstances (fst st)
   \<and> mSortedAtomInstances (fst (snd (resolveLocalParameter s i c t st)))
       = mSortedAtomInstances (fst st)"
  by (simp add: resolveLocalParameter_def addParameter_eq Let_def
      split: sum.splits option.splits)

lemma call_consistent:
  assumes "atomsConsistent (fst st) reg"
  shows "atomsConsistent (fst (call fac c st)) (registerCall c (snd st) reg)"
proof (cases c)
  case (ResolveInputParameter s i c t)
  with assms show ?thesis
    by (simp add: atomsConsistent_cong [OF resolveInputParameter_atoms [THEN conjunct1]
          resolveInputParameter_atoms [THEN conjunct2]])
next
  case (ResolveOutputParameter s i c t)
  with assms show ?thesis
    by (simp add: atomsConsistent_cong [OF resolveOutputParameter_atoms [THEN conjunct1]
          resolveOutputParameter_atoms [THEN conjunct2]])
next
  case (ResolveLocalParameterByName s i n t)
  with assms show ?thesis
    by (simp add: atomsConsistent_cong [OF resolveLocalParameterByName_atoms [THEN conjunct1]
          resolveLocalParameterByName_atoms [THEN conjunct2]])
next
  case (ResolveLocalParameter s i c t)
  with assms show ?thesis
    by (simp add: atomsConsistent_cong [OF resolveLocalParameter_atoms [THEN conjunct1]
          resolveLocalParameter_atoms [THEN conjunct2]])
next
  case (AddInputParameter p)
  with assms show ?thesis by (simp add: addInputParameter_eq atomsConsistent_def)
next
  case (AddOutputParameter p)
  with assms show ?thesis by (simp add: addOutputParameter_eq atomsConsistent_def)
next
  case (DeleteInputParameter p)
  with assms show ?thesis by (simp add: deleteInputParameter_def atomsConsistent_def)
next
  case (DeleteOutputParameter p)
  with assms show ?thesis by (simp add: deleteOutputParameter_def atomsConsistent_def)
next
  case DeleteAllInputParameters
  with assms show ?thesis by (simp add: deleteAllInputParameters_def atomsConsistent_def)
next
  case DeleteAllOutputParameters
  with assms show ?thesis by (simp add: deleteAllOutputParameters_def atomsConsistent_def)
next
  case (AddAtomInstance a)
  with assms show ?thesis by (simp add: addAtomInstance_consistent)
next
  case (AddAtomAssign g)
  with assms show ?thesis by (simp add: addAtomAssign_def addAtomInstance_consistent)
next
  case (DeleteAtomInstance a)
  with assms show ?thesis by (simp add: deleteAtomInstance_consistent)
next
  case GetAtomInstances
  with assms show ?thesis by (simp add: getAtomInstances_consistent)
qed

lemma run_consistent:
  assumes "atomsConsistent (fst st) reg"
  shows "atomsConsistent (fst (run fac calls st)) (registered fac calls st reg)"
  using assms
proof (induction calls arbitrary: st reg)
  case Nil
  then show ?case by simp
next
  case (Cons c calls)
  from Cons.IH [OF call_consistent [OF Cons.prems]] show ?case by simp
qed

lemma newFunction_consistent: "atomsConsistent (newFunction name desc ty) []"
  by (simp add: atomsConsistent_def newFunction_def mapIndex_def)

lemma getAtomInstances_twice:
  "getAtomInstances (snd (getAtomInstances f)) = getAtomInstances f"
  by (simp add: getAtomInstances_def Let_def)

lemma atomKey_nonneg:
  "0 \<le> getGroupExecutionOrder a \<Longrightarrow> getGroupExecutionOrder a < 2 ^ 31
     \<Longrightarrow> int (atomKey a) = getGroupExecutionOrder a"
  by (simp add: atomKey_def size_t_of_int_def)

text \<open>
  After any sequence of calls on a new Function, \<^verbatim>\<open>getAtomInstances\<close> returns the
  registered atoms sorted stably by the key of their bucket, which is the group execution
  order converted to \<^verbatim>\<open>size_t\<close>: the keys ascend, and the atoms of one key are in the order
  of their registration (what \<^verbatim>\<open>addAtomInstance\<close> appended and no successful
  \<^verbatim>\<open>deleteAtomInstance\<close> removed). When all group orders are non-negative, the result
  ascends in the group order itself. The result is cached: the retrieval stores the list
  it returns, a second retrieval returns the same list and changes nothing;
  \<^verbatim>\<open>addAtomInstance\<close> and a successful \<^verbatim>\<open>deleteAtomInstance\<close> empty the cache, so that calls
  made between two retrievals show in the later one.
\<close>

lemma getAtomInstances_stable_sort:
  fixes fac calls name desc ty h
  defines "st \<equiv> run fac calls (newFunction name desc ty, h)"
    and "reg \<equiv> registered fac calls (newFunction name desc ty, h) []"
  defines "result \<equiv> fst (getAtomInstances (fst st))"
  shows "result = sort_key atomKey reg
    \<and> sorted (map atomKey result)
    \<and> (\<forall>g. filter (\<lambda>a. atomKey a = g) result = filter (\<lambda>a. atomKey a = g) reg)
    \<and> ((\<forall>a\<in>set reg. 0 \<le> getGroupExecutionOrder a \<and> getGroupExecutionOrder a < 2 ^ 31)
         \<longrightarrow> sorted (map getGroupExecutionOrder result))
    \<and> mSortedAtomInstances (addAtomInstance f a) = []
    \<and> (fst (deleteAtomInstance f a)
         \<longrightarrow> mSortedAtomInstances (snd (deleteAtomInstance f a)) = [])
    \<and> mSortedAtomInstances (snd (getAtomInstances f)) = fst (getAtomInstances f)
    \<and> getAtomInstances (snd (getAtomInstances f)) = getAtomInstances f"
proof -
  have "atomsConsistent (fst st) reg"
    unfolding st_def reg_def
    using run_consistent [of "(newFunction name desc ty, h)" "[]" fac calls]
    by (simp add: newFunction_consistent)
  then have sorted: "result = sort_key atomKey reg"
    unfolding result_def by (rule getAtomInstances_consistent)
  have ascending: "sorted (map getGroupExecutionOrder result)"
    if range: "\<forall>a\<in>set reg. 0 \<le> getGroupExecutionOrder a \<and> getGroupExecutionOrder a < 2 ^ 31"
  proof -
    have "sorted (map atomKey result)"
      unfolding sorted by (rule sorted_sort_key)
    then have "sorted_wrt (\<lambda>x y. atomKey x \<le> atomKey y) result"
      by (simp only: sorted_map)
    moreover have "getGroupExecutionOrder x \<le> getGroupExecutionOrder y"
      if "x \<in> set result" "y \<in> set result" "atomKey x \<le> atomKey y" for x y
    proof -
      from that range sorted
      have "int (atomKey x) = getGroupExecutionOrder x" "int (atomKey y) = getGroupExecutionOrder y"
        by (auto intro: atomKey_nonneg)
      with that(3) show ?thesis by linarith
    qed
    ultimately have "sorted_wrt (\<lambda>x y. getGroupExecutionOrder x \<le> getGroupExecutionOrder y) result"
      by (rule sorted_wrt_mono_rel [rotated]) auto
    then show ?thesis by (simp only: sorted_map)
  qed
  have cleared: "mSortedAtomInstances (snd (deleteAtomInstance f a)) = []"
    if "fst (deleteAtomInstance f a)"
    using that by (simp add: deleteAtomInstance_def Let_def split: if_splits)
  have stable: "filter (\<lambda>a. atomKey a = g) result = filter (\<lambda>a. atomKey a = g) reg" for g
    unfolding sorted by (rule sort_key_stable)
  have keys: "sorted (map atomKey result)"
    unfolding sorted by (rule sorted_sort_key)
  have added: "mSortedAtomInstances (addAtomInstance f a) = []"
    by (simp add: addAtomInstance_def)
  have stored: "mSortedAtomInstances (snd (getAtomInstances f)) = fst (getAtomInstances f)"
    by (simp add: getAtomInstances_def Let_def)
  show ?thesis
    using sorted keys stable ascending added cleared stored getAtomInstances_twice [of f]
    by blast
qed

text \<open>
  Two assignments in the groups 10 and 0, a retrieval, an atom at address 7 in group 10,
  the deletion of the first assignment and one more assignment in group 0.
\<close>

lemma getAtomInstances_stable_sort_example:
  "fst (getAtomInstances (fst (run sampleFactory
      [AddAtomAssign 10, AddAtomAssign 0, GetAtomInstances, AddAtomInstance (7, 10),
       DeleteAtomInstance (0, 10), AddAtomAssign 0]
      (newFunction ''main'' ''entry point'' 0, 0))))
   = [(1, 0), (2, 0), (7, 10)]
   \<and> registered sampleFactory
      [AddAtomAssign 10, AddAtomAssign 0, GetAtomInstances, AddAtomInstance (7, 10),
       DeleteAtomInstance (0, 10), AddAtomAssign 0]
      (newFunction ''main'' ''entry point'' 0, 0) []
   = [(1, 0), (7, 10), (2, 0)]
   \<and> sorted (map getGroupExecutionOrder [(1, 0), (2, 0), (7, 10)])"
proof -
  note order = getAtomInstances_stable_sort [where fac = sampleFactory and name = "''main''"
      and desc = "''entry point''" and ty = 0 and h = 0 and f = "newFunction ''main'' [] 0"
      and a = "(0, 0)" and calls =
        "[AddAtomAssign 10, AddAtomAssign 0, GetAtomInstances, AddAtomInstance (7, 10),
          DeleteAtomInstance (0, 10), AddAtomAssign 0]"]
  have reg: "registered sampleFactory
      [AddAtomAssign 10, AddAtomAssign 0, GetAtomInstances, AddAtomInstance (7, 10),
       DeleteAtomInstance (0, 10), AddAtomAssign 0]
      (newFunction ''main'' ''entry point'' 0, 0) []
   = [(1, 0), (7, 10), (2, 0)]"
    by (simp add: addAtomAssign_def atomKey_def size_t_of_int_def getGroupExecutionOrder_def)
  have keys: "atomKey (x, 0) = 0" "atomKey (x, 10) = 10" for x
    by (simp_all add: atomKey_def size_t_of_int_def getGroupExecutionOrder_def)
  have result: "fst (getAtomInstances (fst (run sampleFactory
      [AddAtomAssign 10, AddAtomAssign 0, GetAtomInstances, AddAtomInstance (7, 10),
       DeleteAtomInstance (0, 10), AddAtomAssign 0]
      (newFunction ''main'' ''entry point'' 0, 0))))
   = [(1, 0), (2, 0), (7, 10)]"
    unfolding order [THEN conjunct1] reg by (simp add: keys)
  have "sorted (map getGroupExecutionOrder [(1, 0), (2, 0), (7, 10)])"
    using order [THEN conjunct2, THEN conjunct2, THEN conjunct2, THEN conjunct1]
    unfolding result reg by (simp add: getGroupExecutionOrder_def)
  with result reg show ?thesis by simp
qed

text \<open>
  C1. \<^verbatim>\<open>getAtomInstances\<close> is to return the atoms in ascending group execution order, and
  in the order of their registration within a group. The buckets are kept in a map keyed
  by \<^verbatim>\<open>size_t\<close>, and the \<^verbatim>\<open>int\<close> group order is converted where it is used as the key, so
  an atom of a negative group order gets a key above every non-negative one. After an
  assignment in group 5, a retrieval, and an assignment in group \<open>-1\<close>, the retrieval
  returns the atom of group \<open>-1\<close> behind the atom of group 5.
\<close>

theorem C1_negative_group_order:
  "fst (getAtomInstances (fst (run sampleFactory
      [AddAtomAssign 5, GetAtomInstances, AddAtomAssign (- 1)]
      (newFunction ''main'' ''entry point'' 0, 0))))
   = [(0, 5), (1, - 1)]
   \<and> map getGroupExecutionOrder [(0, 5), (1, - 1)] = [5, - 1]
   \<and> map atomKey [(0, 5), (1, - 1)] = [5, 18446744073709551615]"
  by (simp add: addAtomAssign_def addAtomInstance_def getAtomInstances_def newFunction_def
      atomKey_def size_t_of_int_def getGroupExecutionOrder_def mapIndex_def Let_def)

end
